theory Spec2Isabelle
  imports Main "HOL-Library.Sublist"
begin

section \<open>JavaScript values\<close>

text \<open>
  The metadata the tool handles is made of JavaScript primitives: the fields of a
  Selection (makers, models, ISO numbers, a photographer name) are primitives, and an
  EXIF tag value is a primitive or an array of primitives (\<^verbatim>\<open>[selection.film.iso]\<close>,
  \<^verbatim>\<open>[focalLength, 1]\<close>). Strings are sequences of code units in the range 0..255,
  which is also how the processors read a file (\<^verbatim>\<open>data.toString('binary')\<close>). Finite
  numbers are integers (ISO values, tag numbers); \<open>NaN\<close> is a value of its own.
\<close>

datatype prim = Undefined | Null | Bool bool | Num int | NaN | Str string

datatype jsval = P prim | Arr "prim list"

text \<open>Truthiness, as \<^verbatim>\<open>if (x)\<close>, \<^verbatim>\<open>!x\<close>, \<^verbatim>\<open>x || y\<close> and \<^verbatim>\<open>x && y\<close> read a value.\<close>

fun truthyP :: "prim \<Rightarrow> bool" where
  "truthyP Undefined = False"
| "truthyP Null = False"
| "truthyP (Bool b) = b"
| "truthyP (Num n) = (n \<noteq> 0)"
| "truthyP NaN = False"
| "truthyP (Str s) = (s \<noteq> [])"

fun truthy :: "jsval \<Rightarrow> bool" where
  "truthy (P p) = truthyP p"
| "truthy (Arr xs) = True"

text \<open>Strict equality \<^verbatim>\<open>===\<close> on primitives: same type and same value, and \<open>NaN\<close> equals nothing.\<close>

definition strictEq :: "prim \<Rightarrow> prim \<Rightarrow> bool" where
  "strictEq a b = (a = b \<and> a \<noteq> NaN)"

text \<open>\<^verbatim>\<open>typeof x === 'number'\<close>\<close>

fun isNumber :: "prim \<Rightarrow> bool" where
  "isNumber (Num n) = True"
| "isNumber NaN = True"
| "isNumber p = False"

text \<open>
  \<^verbatim>\<open>String.prototype.trim\<close> removes white space at both ends; among the code units
  0..255 the white space characters are TAB, LF, VT, FF, CR, SPACE and NBSP.
\<close>

definition isWhiteSpace :: "char \<Rightarrow> bool" where
  "isWhiteSpace c = (of_char c \<in> {9, 10, 11, 12, 13, 32, 160 :: nat})"

definition trim :: "string \<Rightarrow> string" where
  "trim s = rev (dropWhile isWhiteSpace (rev (dropWhile isWhiteSpace s)))"

text \<open>\<^verbatim>\<open>typeof value === 'string' && value.trim() === ''\<close>\<close>

fun blankString :: "jsval \<Rightarrow> bool" where
  "blankString (P (Str s)) = (trim s = [])"
| "blankString v = False"

text \<open>Conversion to a string, as the placeholder \<^verbatim>\<open>${x}\<close> of a template literal does it.\<close>

function natToString :: "nat \<Rightarrow> string" where
  "natToString n =
     (if n < 10 then [char_of (48 + n)]
      else natToString (n div 10) @ [char_of (48 + n mod 10)])"
  by pat_completeness auto
termination
  by (relation "measure id") auto

declare natToString.simps [simp del]

fun toString :: "prim \<Rightarrow> string" where
  "toString Undefined = ''undefined''"
| "toString Null = ''null''"
| "toString (Bool b) = (if b then ''true'' else ''false'')"
| "toString (Num n) = (if n < 0 then ''-'' @ natToString (nat (- n)) else natToString (nat n))"
| "toString NaN = ''NaN''"
| "toString (Str s) = s"

text \<open>\<^verbatim>\<open>parts.join(' ')\<close> on an array of strings.\<close>

fun joinWith :: "string \<Rightarrow> string list \<Rightarrow> string" where
  "joinWith sep [] = []"
| "joinWith sep [x] = x"
| "joinWith sep (x # y # ys) = x @ sep @ joinWith sep (y # ys)"

section \<open>Equipment models and the Selection (models.js, cli.js)\<close>

record camera =
  cam_maker :: prim
  cam_model :: prim

record lens =
  lens_maker :: prim
  lens_model :: prim
  lens_focalLength :: prim
  lens_aperture :: prim
  lens_mount :: prim

record film =
  film_maker :: prim
  film_name :: prim
  film_iso :: prim

text \<open>
  \<^verbatim>\<open>selection.setup\<close> is what \<^verbatim>\<open>getSetupWithDetails\<close> returns, \<^verbatim>\<open>{setup, camera, lens}\<close>;
  a member that is \<^verbatim>\<open>null\<close> or \<^verbatim>\<open>undefined\<close> is \<open>None\<close>.
\<close>

record setupDetails =
  setup_camera :: "camera option"
  setup_lens :: "lens option"

record selection =
  sel_setup :: "setupDetails option"
  sel_film :: "film option"
  sel_shotISO :: prim
  sel_photographer :: prim

text \<open>\<^verbatim>\<open>Lens.getLensModelWithAperture\<close>\<close>

definition getLensModelWithAperture :: "lens \<Rightarrow> string" where
  "getLensModelWithAperture l =
     joinWith '' ''
       ((if truthyP (lens_model l) then [toString (lens_model l)] else []) @
        (if truthyP (lens_focalLength l) then [toString (lens_focalLength l) @ ''mm''] else []) @
        (if truthyP (lens_aperture l) then [''f/'' @ toString (lens_aperture l)] else []))"

section \<open>EXIF tags (exif/tags.js)\<close>

text \<open>
  An EXIF object maps the name of an IFD (\<^verbatim>\<open>'0th'\<close>, \<^verbatim>\<open>'Exif'\<close>, ...) to its bucket, and
  a bucket maps tag numbers to values. The tag numbers are those of piexifjs's
  \<^verbatim>\<open>ImageIFD\<close> and \<^verbatim>\<open>ExifIFD\<close> tables, as the tests of the repository read them back
  (271, 272, 315, 34855, 34867, 42035, 42036).
\<close>

type_synonym bucket = "nat \<rightharpoonup> jsval"

type_synonym exifObj = "string \<rightharpoonup> bucket"

datatype configKey =
  cameraMaker | cameraModel | lensMaker | lensModel | focalLength | fNumber
  | filmISO | shotISO | photographer

definition ImageIFD_Make :: nat where "ImageIFD_Make = 271"
definition ImageIFD_Model :: nat where "ImageIFD_Model = 272"
definition ImageIFD_Artist :: nat where "ImageIFD_Artist = 315"
definition ExifIFD_FNumber :: nat where "ExifIFD_FNumber = 33437"
definition ExifIFD_ISOSpeedRatings :: nat where "ExifIFD_ISOSpeedRatings = 34855"
definition ExifIFD_ISOSpeed :: nat where "ExifIFD_ISOSpeed = 34867"
definition ExifIFD_FocalLength :: nat where "ExifIFD_FocalLength = 37386"
definition ExifIFD_LensMake :: nat where "ExifIFD_LensMake = 42035"
definition ExifIFD_LensModel :: nat where "ExifIFD_LensModel = 42036"

fun EXIF_TAGS :: "configKey \<Rightarrow> string \<times> nat" where
  "EXIF_TAGS cameraMaker = (''0th'', ImageIFD_Make)"
| "EXIF_TAGS cameraModel = (''0th'', ImageIFD_Model)"
| "EXIF_TAGS lensMaker = (''Exif'', ExifIFD_LensMake)"
| "EXIF_TAGS lensModel = (''Exif'', ExifIFD_LensModel)"
| "EXIF_TAGS focalLength = (''Exif'', ExifIFD_FocalLength)"
| "EXIF_TAGS fNumber = (''Exif'', ExifIFD_FNumber)"
| "EXIF_TAGS filmISO = (''Exif'', ExifIFD_ISOSpeedRatings)"
| "EXIF_TAGS shotISO = (''Exif'', ExifIFD_ISOSpeed)"
| "EXIF_TAGS photographer = (''0th'', ImageIFD_Artist)"

text \<open>
  \<^verbatim>\<open>setExifValue(exifObj, configKey, value)\<close> mutates \<^verbatim>\<open>exifObj\<close>; the model returns the
  object after the call.
\<close>

definition setExifValue :: "exifObj \<Rightarrow> configKey \<Rightarrow> jsval \<Rightarrow> exifObj" where
  "setExifValue exifObj key v =
     (if \<not> truthy v \<or> blankString v then exifObj
      else
        (case EXIF_TAGS key of (ifd, tag) \<Rightarrow>
           (case exifObj ifd of
              None \<Rightarrow> exifObj(ifd \<mapsto> Map.empty(tag \<mapsto> v))
            | Some b \<Rightarrow> exifObj(ifd \<mapsto> b(tag \<mapsto> v)))))"

text \<open>\<^verbatim>\<open>createCleanExifObject\<close> (its \<^verbatim>\<open>thumbnail: null\<close> member holds no tag and is left out).\<close>

definition createCleanExifObject :: exifObj where
  "createCleanExifObject =
     Map.empty(''0th'' \<mapsto> Map.empty, ''Exif'' \<mapsto> Map.empty, ''GPS'' \<mapsto> Map.empty,
       ''Interop'' \<mapsto> Map.empty, ''1st'' \<mapsto> Map.empty)"

text \<open>The value stored under a tag of an IFD, if any.\<close>

definition getTag :: "exifObj \<Rightarrow> string \<Rightarrow> nat \<Rightarrow> jsval option" where
  "getTag exifObj ifd tag = (case exifObj ifd of None \<Rightarrow> None | Some b \<Rightarrow> b tag)"

section \<open>File type detection (exif/fileTypes.js)\<close>

text \<open>\<^verbatim>\<open>path.basename\<close> on a POSIX path: trailing slashes are dropped, then the last component is taken.\<close>

definition basename :: "string \<Rightarrow> string" where
  "basename p =
     rev (takeWhile (\<lambda>c. c \<noteq> CHR ''/'') (dropWhile (\<lambda>c. c = CHR ''/'') (rev p)))"

primrec lastIdx :: "string \<Rightarrow> char \<Rightarrow> nat \<Rightarrow> int \<Rightarrow> int" where
  "lastIdx [] c i best = best"
| "lastIdx (x # xs) c i best = lastIdx xs c (Suc i) (if x = c then int i else best)"

text \<open>\<^verbatim>\<open>s.lastIndexOf(c)\<close>: the last position of \<open>c\<close>, or \<open>-1\<close>.\<close>

definition lastIndexOf :: "string \<Rightarrow> char \<Rightarrow> int" where
  "lastIndexOf s c = lastIdx s c 0 (- 1)"

text \<open>\<^verbatim>\<open>toLowerCase\<close> on the code units 0..255: A..Z and the accented capitals of Latin-1.\<close>

definition toLowerChar :: "char \<Rightarrow> char" where
  "toLowerChar c =
     (let n = (of_char c :: nat) in
      if (65 \<le> n \<and> n \<le> 90) \<or> (192 \<le> n \<and> n \<le> 222 \<and> n \<noteq> 215) then char_of (n + 32) else c)"

definition toLowerCase :: "string \<Rightarrow> string" where
  "toLowerCase s = map toLowerChar s"

definition getFileExtension :: "string \<Rightarrow> string" where
  "getFileExtension filePath =
     (let fileName = basename filePath; lastDotIndex = lastIndexOf fileName CHR ''.'' in
      if lastDotIndex = - 1 \<or> lastDotIndex = int (length fileName) - 1 then []
      else toLowerCase (drop (nat (lastDotIndex + 1)) fileName))"

definition isJpegFile :: "string \<Rightarrow> bool" where
  "isJpegFile filePath = (getFileExtension filePath \<in> set [''jpg'', ''jpeg''])"

definition isTiffFile :: "string \<Rightarrow> bool" where
  "isTiffFile filePath = (getFileExtension filePath \<in> set [''tiff'', ''tif''])"

definition isDngFile :: "string \<Rightarrow> bool" where
  "isDngFile filePath = (getFileExtension filePath \<in> set [''dng''])"

definition isRawFile :: "string \<Rightarrow> bool" where
  "isRawFile filePath =
     (getFileExtension filePath \<in> set [''dng'', ''cr2'', ''cr3'', ''nef'', ''nrw'', ''arw'',
        ''srf'', ''sr2'', ''orf'', ''rw2'', ''raf'', ''srw'', ''pef'', ''x3f'', ''erf'', ''mef'',
        ''mrw'', ''dcr'', ''kdc'', ''3fr'', ''fff'', ''iiq'', ''k25'', ''rwl''])"


definition getFileType :: "string \<Rightarrow> string" where
  "getFileType filePath =
     (if isJpegFile filePath then ''jpeg''
      else if isTiffFile filePath then ''tiff''
      else if isDngFile filePath then ''dng''
      else if isRawFile filePath then ''raw''
      else ''unknown'')"

section \<open>The environment: file contents and the libraries\<close>

text \<open>
  File contents are a map from paths to bytes. \<^verbatim>\<open>fs.readFileSync\<close> of a path that holds
  no file raises, and \<^verbatim>\<open>fs.writeFileSync\<close> stores the bytes (a write that the operating
  system refuses is outside the model). What \<^verbatim>\<open>fs.existsSync\<close> and \<^verbatim>\<open>fs.unlinkSync\<close> meet
  beyond the files is a parameter of the environment below, \<open>fs_unremovable\<close>: the paths at
  which an entry exists that cannot be unlinked (a directory, or an entry the process may
  not remove). There \<^verbatim>\<open>existsSync\<close> is true and \<^verbatim>\<open>unlinkSync\<close> raises; at any other path
  \<^verbatim>\<open>unlinkSync\<close> removes the file.
\<close>

type_synonym fsys = "string \<rightharpoonup> string"

text \<open>A decoded TIFF image file directory, as UTIF hands it over: its \<^verbatim>\<open>t<number>\<close> members and \<^verbatim>\<open>width\<close>, \<^verbatim>\<open>height\<close>, \<^verbatim>\<open>data\<close>.\<close>

record tiff =
  tiff_tags :: "nat \<rightharpoonup> jsval"
  tiff_width :: jsval
  tiff_height :: jsval
  tiff_data :: jsval

text \<open>
  The libraries the processors call are parameters of the model: piexifjs, UTIF, and the
  built-ins \<^verbatim>\<open>parseInt\<close>, \<^verbatim>\<open>parseFloat\<close>, \<^verbatim>\<open>Math.round(x * 10)\<close>, \<^verbatim>\<open>path.join\<close>,
  \<^verbatim>\<open>path.relative\<close> and \<^verbatim>\<open>path.dirname\<close>. A library call that raises returns \<open>None\<close>.
  For \<^verbatim>\<open>piexif.remove\<close> a model of the JPEG container is given further down
  (\<open>removeExifSegments\<close>); the erase of a JPEG is stated with the parameter set to it.
\<close>

record env =
  piexif_load :: "string \<Rightarrow> exifObj option"
  piexif_dump :: "exifObj \<Rightarrow> string option"
  piexif_insert :: "string \<Rightarrow> string \<Rightarrow> string option"
  piexif_remove :: "string \<Rightarrow> string option"
  UTIF_decode :: "string \<Rightarrow> tiff list option"
  UTIF_encode :: "tiff list \<Rightarrow> string option"
  js_parseInt :: "prim \<Rightarrow> prim"
  js_parseFloat :: "prim \<Rightarrow> prim"
  js_roundTimes10 :: "prim \<Rightarrow> prim"
  path_join :: "string \<Rightarrow> string \<Rightarrow> string"
  path_relative :: "string \<Rightarrow> string \<Rightarrow> string"
  path_dirname :: "string \<Rightarrow> string"
  fs_unremovable :: "string \<Rightarrow> bool"

text \<open>
  What the code raises: \<^verbatim>\<open>new Error(message)\<close>, the \<^verbatim>\<open>TypeError\<close> of reading a member of
  \<^verbatim>\<open>undefined\<close> or \<^verbatim>\<open>null\<close>, and the error of a file-system call that fails.
\<close>

datatype error = Error string | TypeError | SystemError

definition bindE :: "error + 'a \<Rightarrow> ('a \<Rightarrow> error + 'b) \<Rightarrow> error + 'b" where
  "bindE m f = (case m of Inl e \<Rightarrow> Inl e | Inr x \<Rightarrow> f x)"

text \<open>\<^verbatim>\<open>selection.setup.camera\<close>, \<^verbatim>\<open>selection.setup.lens\<close> and \<^verbatim>\<open>selection.film\<close>, read for a member.\<close>

definition theCamera :: "selection option \<Rightarrow> error + camera" where
  "theCamera selection =
     (case selection of None \<Rightarrow> Inl TypeError
      | Some s \<Rightarrow> (case sel_setup s of None \<Rightarrow> Inl TypeError
          | Some d \<Rightarrow> (case setup_camera d of None \<Rightarrow> Inl TypeError | Some c \<Rightarrow> Inr c)))"

definition theLens :: "selection option \<Rightarrow> error + lens" where
  "theLens selection =
     (case selection of None \<Rightarrow> Inl TypeError
      | Some s \<Rightarrow> (case sel_setup s of None \<Rightarrow> Inl TypeError
          | Some d \<Rightarrow> (case setup_lens d of None \<Rightarrow> Inl TypeError | Some l \<Rightarrow> Inr l)))"

definition theFilm :: "selection option \<Rightarrow> error + film" where
  "theFilm selection =
     (case selection of None \<Rightarrow> Inl TypeError
      | Some s \<Rightarrow> (case sel_film s of None \<Rightarrow> Inl TypeError | Some f \<Rightarrow> Inr f))"

text \<open>\<^verbatim>\<open>selection.shotISO\<close> and \<^verbatim>\<open>selection.photographer\<close> of a selection that is an object.\<close>

definition theShotISO :: "selection option \<Rightarrow> error + prim" where
  "theShotISO selection = (case selection of None \<Rightarrow> Inl TypeError | Some s \<Rightarrow> Inr (sel_shotISO s))"

definition thePhotographer :: "selection option \<Rightarrow> error + prim" where
  "thePhotographer selection =
     (case selection of None \<Rightarrow> Inl TypeError | Some s \<Rightarrow> Inr (sel_photographer s))"

section \<open>Sidecar files (exif/sidecarProcessor.js)\<close>

definition nl :: string where
  "nl = [CHR 0x0A]"

text \<open>The fixed text of the template before the first placeholder, and after the last one.\<close>

definition xmpHead :: string where
  \<open>xmpHead =
     ''<?xml version="1.0" encoding="UTF-8"?>'' @ nl @
     ''<x:xmpmeta xmlns:x="adobe:ns:meta/" x:xmptk="IFEX CLI">'' @ nl @
     ''  <rdf:RDF xmlns:rdf="http://www.w3.org/1999/02/22-rdf-syntax-ns#">'' @ nl @
     ''    <rdf:Description rdf:about=""'' @ nl @
     ''        xmlns:tiff="http://ns.adobe.com/tiff/1.0/"'' @ nl @
     ''        xmlns:exif="http://ns.adobe.com/exif/1.0/"'' @ nl @
     ''        xmlns:dc="http://purl.org/dc/elements/1.1/">'' @ nl\<close>

definition xmpTail :: string where
  "xmpTail =
     ''    </rdf:Description>'' @ nl @
     ''  </rdf:RDF>'' @ nl @
     ''</x:xmpmeta>''"

text \<open>The lines of the template that hold a placeholder, one definition per element.\<close>

definition xmpMake :: "camera \<Rightarrow> string" where
  "xmpMake c = ''      <tiff:Make>'' @ toString (cam_maker c) @ ''</tiff:Make>'' @ nl"

definition xmpModel :: "camera \<Rightarrow> string" where
  "xmpModel c = ''      <tiff:Model>'' @ toString (cam_model c) @ ''</tiff:Model>'' @ nl"

definition xmpLensMake :: "lens \<Rightarrow> string" where
  "xmpLensMake l = ''      <exif:LensMake>'' @ toString (lens_maker l) @ ''</exif:LensMake>'' @ nl"

definition xmpLensModel :: "lens \<Rightarrow> string" where
  "xmpLensModel l =
     ''      <exif:LensModel>'' @ getLensModelWithAperture l @ ''</exif:LensModel>'' @ nl"

definition xmpISOSpeedRatings :: "film \<Rightarrow> string" where
  "xmpISOSpeedRatings f =
     ''      <exif:ISOSpeedRatings>'' @ nl @
     ''        <rdf:Seq>'' @ nl @
     ''          <rdf:li>'' @ toString (film_iso f) @ ''</rdf:li>'' @ nl @
     ''        </rdf:Seq>'' @ nl @
     ''      </exif:ISOSpeedRatings>'' @ nl"

definition xmpPhotographicSensitivity :: "prim \<Rightarrow> string" where
  "xmpPhotographicSensitivity shot =
     ''      '' @
     (if truthyP shot
      then ''<exif:PhotographicSensitivity>'' @ toString shot @ ''</exif:PhotographicSensitivity>''
      else []) @ nl"

definition xmpCreator :: "prim \<Rightarrow> string" where
  "xmpCreator p =
     ''      <dc:creator>'' @ nl @
     ''        <rdf:Seq>'' @ nl @
     ''          <rdf:li>'' @ toString p @ ''</rdf:li>'' @ nl @
     ''        </rdf:Seq>'' @ nl @
     ''      </dc:creator>'' @ nl"

text \<open>
  \<^verbatim>\<open>generateXmpSidecar(selection)\<close>: the placeholders are evaluated in the order of the
  template, and reading a member of a missing camera, lens or film raises.
\<close>

definition generateXmpSidecar :: "selection option \<Rightarrow> error + string" where
  "generateXmpSidecar selection =
     bindE (theCamera selection) (\<lambda>c.
     bindE (theLens selection) (\<lambda>l.
     bindE (theFilm selection) (\<lambda>f.
     bindE (theShotISO selection) (\<lambda>shot.
     bindE (thePhotographer selection) (\<lambda>p.
       Inr (xmpHead @ xmpMake c @ xmpModel c @ xmpLensMake l @ xmpLensModel l @
            xmpISOSpeedRatings f @ xmpPhotographicSensitivity shot @ xmpCreator p @ xmpTail))))))"

text \<open>Every function that touches files returns its result and the files after the call.\<close>

definition createSidecarFile :: "fsys \<Rightarrow> string \<Rightarrow> selection option \<Rightarrow> bool \<times> fsys" where
  "createSidecarFile fs filePath selection =
     (let sidecarPath = filePath @ ''.xmp'' in
      case generateXmpSidecar selection of
        Inl e \<Rightarrow> (False, fs)
      | Inr xmpContent \<Rightarrow> (True, fs(sidecarPath \<mapsto> xmpContent)))"

text \<open>
  \<^verbatim>\<open>removeSidecarFile(filePath)\<close> has no \<^verbatim>\<open>try\<close>: when \<^verbatim>\<open>unlinkSync\<close> raises, it raises.
\<close>

definition existsSync :: "env \<Rightarrow> fsys \<Rightarrow> string \<Rightarrow> bool" where
  "existsSync E fs path = (fs path \<noteq> None \<or> fs_unremovable E path)"

definition unlinkSync :: "env \<Rightarrow> fsys \<Rightarrow> string \<Rightarrow> error + fsys" where
  "unlinkSync E fs path =
     (if fs_unremovable E path \<or> fs path = None then Inl SystemError else Inr (fs(path := None)))"

definition removeSidecarFile :: "env \<Rightarrow> fsys \<Rightarrow> string \<Rightarrow> error + bool \<times> fsys" where
  "removeSidecarFile E fs filePath =
     (let sidecarPath = filePath @ ''.xmp'' in
      if existsSync E fs sidecarPath
      then (case unlinkSync E fs sidecarPath of
              Inl e \<Rightarrow> Inl e
            | Inr fs' \<Rightarrow> Inr (True, fs'))
      else Inr (False, fs))"

section \<open>The JPEG container (piexifjs)\<close>

text \<open>
  Modelled from the spec: \<^verbatim>\<open>piexif.remove\<close> of the piexifjs library, which the JPEG erase
  calls and which is not among the sources. The spec has erase "parse the container, strip
  any EXIF segment entirely, write back", the EXIF segment being "a length-prefixed
  metadata block embedded in a JPEG container", and "all bytes outside the exif segment
  (image scan data)" identical before and after.

  The container is that of JPEG: the two bytes of the start-of-image marker, then segments
  that each begin with a two-byte marker followed by a big-endian two-byte length (which
  counts itself and the payload, not the marker), up to the start-of-scan marker, from
  which the scan data runs to the end of the file. An EXIF segment is an APP1 segment whose
  payload begins with \<^verbatim>\<open>Exif\<close> and two zero bytes. Bytes that do not parse this way
  (no start-of-image marker, a length field cut short, no start of scan before the end)
  make the call raise: \<open>None\<close>. The library also takes a base64 data URL for the
  bytes; a file that holds one is no JPEG file and is not told apart here from other
  bytes without a start-of-image marker.
\<close>

definition SOI :: string where "SOI = [CHR 0xFF, CHR 0xD8]"
definition SOS :: string where "SOS = [CHR 0xFF, CHR 0xDA]"
definition APP1 :: string where "APP1 = [CHR 0xFF, CHR 0xE1]"
definition exifHeader :: string where "exifHeader = ''Exif'' @ [CHR 0x00, CHR 0x00]"

text \<open>A big-endian unsigned 16-bit number from exactly two bytes.\<close>

fun unpackH :: "string \<Rightarrow> nat option" where
  "unpackH [a, b] = Some (256 * of_char a + of_char b)"
| "unpackH bytes = None"

text \<open>
  The segments from a position after the start-of-image marker on: the last one starts
  with the start-of-scan marker and takes all the remaining bytes.
\<close>

function segmentsFrom :: "string \<Rightarrow> string list option" where
  "segmentsFrom d =
     (if take 2 d = SOS then Some [d]
      else (case unpackH (take 2 (drop 2 d)) of
              None \<Rightarrow> None
            | Some len \<Rightarrow>
                (if length d \<le> len + 2 then None
                 else map_option (Cons (take (len + 2) d)) (segmentsFrom (drop (len + 2) d)))))"
  by pat_completeness auto
termination
  by (relation "measure length") auto

declare segmentsFrom.simps [simp del]

definition splitIntoSegments :: "string \<Rightarrow> string list option" where
  "splitIntoSegments d =
     (if take 2 d \<noteq> SOI then None else map_option (Cons SOI) (segmentsFrom (drop 2 d)))"

definition isExifSegment :: "string \<Rightarrow> bool" where
  "isExifSegment seg = (take 2 seg = APP1 \<and> take 6 (drop 4 seg) = exifHeader)"

text \<open>The bytes without their EXIF segments: every other segment, in order, byte for byte.\<close>

definition removeExifSegments :: "string \<Rightarrow> string option" where
  "removeExifSegments jpeg =
     map_option (\<lambda>segments. concat (filter (\<lambda>seg. \<not> isExifSegment seg) segments))
       (splitIntoSegments jpeg)"

section \<open>JPEG files (exif/jpegProcessor.js)\<close>

definition Jpeg_validateSelection :: "selection option \<Rightarrow> error + unit" where
  "Jpeg_validateSelection selection =
     (case selection of
        None \<Rightarrow> Inl (Error ''Selection object is required'')
      | Some s \<Rightarrow>
          (case sel_setup s of
             None \<Rightarrow> Inl (Error ''Selection must include setup with camera and lens'')
           | Some d \<Rightarrow>
               (if setup_camera d = None \<or> setup_lens d = None
                then Inl (Error ''Selection must include setup with camera and lens'')
                else if sel_film s = None
                then Inl (Error ''Selection must include film information'')
                else Inr ())))"

text \<open>\<^verbatim>\<open>a || b\<close> on values.\<close>

definition orElse :: "jsval \<Rightarrow> jsval \<Rightarrow> jsval" where
  "orElse a b = (if truthy a then a else b)"

definition setAllExifValues :: "env \<Rightarrow> exifObj \<Rightarrow> selection option \<Rightarrow> error + exifObj" where
  "setAllExifValues E exifObj selection =
     bindE (theCamera selection) (\<lambda>c.
     bindE (thePhotographer selection) (\<lambda>p.
     let e1 = setExifValue exifObj cameraMaker (P (cam_maker c));
         e2 = setExifValue e1 cameraModel (P (cam_model c));
         e3 = setExifValue e2 photographer (P p)
     in
     bindE (theFilm selection) (\<lambda>f.
     bindE (theShotISO selection) (\<lambda>shot.
     let e4 = setExifValue e3 filmISO (Arr [film_iso f]);
         e5 = (if truthyP shot \<and> \<not> strictEq shot (film_iso f)
               then setExifValue e4 shotISO (P shot) else e4)
     in
     bindE (theLens selection) (\<lambda>l.
     let e6 = setExifValue e5 lensMaker (P (lens_maker l));
         e7 = setExifValue e6 lensModel (P (Str (getLensModelWithAperture l)));
         e8 = (if truthyP (lens_focalLength l)
               then setExifValue e7 focalLength (Arr [js_parseInt E (lens_focalLength l), Num 1])
               else e7);
         e9 = (if truthyP (lens_aperture l)
               then setExifValue e8 fNumber
                      (Arr [js_roundTimes10 E (js_parseFloat E (lens_aperture l)), Num 10])
               else e8)
     in Inr e9)))))"

text \<open>The object \<^verbatim>\<open>createMinimalExif\<close> builds, and the function.\<close>

definition unknownIfFalsy :: "prim \<Rightarrow> prim" where
  "unknownIfFalsy p = (if truthyP p then p else Str ''Unknown'')"

definition minimalExifObj :: "selection option \<Rightarrow> error + exifObj" where
  "minimalExifObj selection =
     bindE (theCamera selection) (\<lambda>c.
     bindE (thePhotographer selection) (\<lambda>p.
     bindE (theFilm selection) (\<lambda>f.
     bindE (theShotISO selection) (\<lambda>shot.
     let zeroth = Map.empty(ImageIFD_Make \<mapsto> P (unknownIfFalsy (cam_maker c)),
                    ImageIFD_Model \<mapsto> P (unknownIfFalsy (cam_model c)),
                    ImageIFD_Artist \<mapsto> P (unknownIfFalsy p));
         exif = Map.empty(ExifIFD_ISOSpeedRatings \<mapsto> Arr [film_iso f]);
         exif' = (if truthyP shot \<and> \<not> strictEq shot (film_iso f) \<and> isNumber shot
                  then exif(ExifIFD_ISOSpeed \<mapsto> P shot) else exif)
     in Inr (Map.empty(''0th'' \<mapsto> zeroth, ''Exif'' \<mapsto> exif', ''GPS'' \<mapsto> Map.empty,
               ''Interop'' \<mapsto> Map.empty, ''1st'' \<mapsto> Map.empty))))))"

definition dumpE :: "env \<Rightarrow> exifObj \<Rightarrow> error + string" where
  "dumpE E exifObj =
     (case piexif_dump E exifObj of None \<Rightarrow> Inl (Error ''piexif.dump'') | Some b \<Rightarrow> Inr b)"

definition createMinimalExif :: "env \<Rightarrow> selection option \<Rightarrow> error + string" where
  "createMinimalExif E selection = bindE (minimalExifObj selection) (dumpE E)"

text \<open>The object \<^verbatim>\<open>createBasicExif\<close> builds, and the function with its fallback.\<close>

definition basicExifObj :: "selection option \<Rightarrow> error + exifObj" where
  "basicExifObj selection =
     bindE (theCamera selection) (\<lambda>c.
     bindE (thePhotographer selection) (\<lambda>p.
     let z1 = (if truthyP (cam_maker c) then Map.empty(ImageIFD_Make \<mapsto> P (cam_maker c))
               else Map.empty);
         z2 = (if truthyP (cam_model c) then z1(ImageIFD_Model \<mapsto> P (cam_model c)) else z1);
         z3 = (if truthyP p then z2(ImageIFD_Artist \<mapsto> P p) else z2)
     in
     bindE (theFilm selection) (\<lambda>f.
     bindE (theShotISO selection) (\<lambda>shot.
     let x1 = (if truthyP (film_iso f) then Map.empty(ExifIFD_ISOSpeedRatings \<mapsto> Arr [film_iso f])
               else Map.empty);
         x2 = (if truthyP shot \<and> \<not> strictEq shot (film_iso f)
               then x1(ExifIFD_ISOSpeed \<mapsto> P shot) else x1)
     in Inr (createCleanExifObject(''0th'' \<mapsto> z3, ''Exif'' \<mapsto> x2))))))"

definition createBasicExif :: "env \<Rightarrow> selection option \<Rightarrow> error + string" where
  "createBasicExif E selection =
     bindE (basicExifObj selection) (\<lambda>b.
       case piexif_dump E b of
         Some bytes \<Rightarrow> Inr bytes
       | None \<Rightarrow> createMinimalExif E selection)"

definition Jpeg_applyExifToFile :: "env \<Rightarrow> fsys \<Rightarrow> string \<Rightarrow> selection option \<Rightarrow> bool \<times> fsys" where
  "Jpeg_applyExifToFile E fs filePath selection =
     (case Jpeg_validateSelection selection of
        Inl e \<Rightarrow> (False, fs)
      | Inr u \<Rightarrow>
          (case fs filePath of
             None \<Rightarrow> (False, fs)
           | Some jpegData \<Rightarrow>
               (let loaded = (case piexif_load E jpegData of
                                None \<Rightarrow> createCleanExifObject | Some x \<Rightarrow> x) in
                case bindE (setAllExifValues E loaded selection) (\<lambda>exifObj.
                       case piexif_dump E exifObj of
                         Some bytes \<Rightarrow> Inr bytes
                       | None \<Rightarrow> createBasicExif E selection) of
                  Inl e \<Rightarrow> (False, fs)
                | Inr exifBytes \<Rightarrow>
                    (case piexif_insert E exifBytes jpegData of
                       None \<Rightarrow> (False, fs)
                     | Some newJpegData \<Rightarrow> (True, fs(filePath \<mapsto> newJpegData))))))"

definition Jpeg_eraseExifFromFile :: "env \<Rightarrow> fsys \<Rightarrow> string \<Rightarrow> bool \<times> fsys" where
  "Jpeg_eraseExifFromFile E fs filePath =
     (case fs filePath of
        None \<Rightarrow> (False, fs)
      | Some jpegData \<Rightarrow>
          (case piexif_remove E jpegData of
             None \<Rightarrow> (False, fs)
           | Some newJpegData \<Rightarrow> (True, fs(filePath \<mapsto> newJpegData))))"

section \<open>TIFF files (exif/tiffProcessor.js)\<close>

definition Tiff_validateSelection :: "selection option \<Rightarrow> error + unit" where
  "Tiff_validateSelection selection =
     (case selection of
        None \<Rightarrow> Inl (Error ''Selection object is required'')
      | Some s \<Rightarrow>
          (case sel_setup s of
             None \<Rightarrow> Inl (Error ''Selection must include setup with camera and lens'')
           | Some d \<Rightarrow>
               (if setup_camera d = None \<or> setup_lens d = None
                then Inl (Error ''Selection must include setup with camera and lens'')
                else if sel_film s = None
                then Inl (Error ''Selection must include film information'')
                else Inr ())))"

text \<open>\<^verbatim>\<open>tiff.t<n>\<close>, read: a member that was never set is \<^verbatim>\<open>undefined\<close>.\<close>

definition tiffTag :: "tiff \<Rightarrow> nat \<Rightarrow> jsval" where
  "tiffTag t n = (case tiff_tags t n of None \<Rightarrow> P Undefined | Some v \<Rightarrow> v)"

definition setTiffExifValues :: "tiff \<Rightarrow> selection option \<Rightarrow> error + tiff" where
  "setTiffExifValues t selection =
     (let g1 = (tiff_tags t)(256 \<mapsto> orElse (tiffTag t 256) (tiff_width t));
          g2 = g1(257 \<mapsto> orElse (tiffTag t 257) (tiff_height t))
      in
      bindE (theCamera selection) (\<lambda>c.
      let g3 = g2(271 \<mapsto> P (cam_maker c));
          g4 = g3(272 \<mapsto> P (cam_model c))
      in
      bindE (theLens selection) (\<lambda>l.
      let g5 = g4(42035 \<mapsto> P (lens_maker l));
          g6 = g5(42036 \<mapsto> P (Str (getLensModelWithAperture l)))
      in
      bindE (theFilm selection) (\<lambda>f.
      bindE (theShotISO selection) (\<lambda>shot.
      let g7 = g6(34855 \<mapsto> Arr [film_iso f]);
          g8 = (if truthyP shot then g7(34864 \<mapsto> P shot) else g7)
      in
      bindE (thePhotographer selection) (\<lambda>p.
        Inr (t\<lparr>tiff_tags := g8(315 \<mapsto> P p)\<rparr>)))))))"

text \<open>
  The inner \<^verbatim>\<open>try\<close> of \<^verbatim>\<open>applyExifToFile\<close>: set the tags and encode; \<open>None\<close> when either raises.
\<close>

definition setAndEncode :: "env \<Rightarrow> tiff \<Rightarrow> selection option \<Rightarrow> string option" where
  "setAndEncode E t selection =
     (case setTiffExifValues t selection of
        Inl e \<Rightarrow> None
      | Inr t' \<Rightarrow> UTIF_encode E [t'])"

definition Tiff_applyExifToFile :: "env \<Rightarrow> fsys \<Rightarrow> string \<Rightarrow> selection option \<Rightarrow> bool \<times> fsys" where
  "Tiff_applyExifToFile E fs filePath selection =
     (case Tiff_validateSelection selection of
        Inl e \<Rightarrow> (False, fs)
      | Inr u \<Rightarrow>
          (case fs filePath of
             None \<Rightarrow> (False, fs)
           | Some bytes \<Rightarrow>
               (case UTIF_decode E bytes of
                  None \<Rightarrow> createSidecarFile fs filePath selection
                | Some [] \<Rightarrow> (False, fs)
                | Some (t # ts) \<Rightarrow>
                    (case setAndEncode E t selection of
                       Some newData \<Rightarrow> (True, fs(filePath \<mapsto> newData))
                     | None \<Rightarrow> createSidecarFile fs filePath selection))))"

definition essentialTags :: "nat list" where
  "essentialTags = [256, 257, 258, 259, 262, 273, 277, 278, 279]"

definition keepIfTruthy :: "jsval \<Rightarrow> jsval" where
  "keepIfTruthy v = (if truthy v then v else P Undefined)"

definition cleanTiff :: "tiff \<Rightarrow> tiff" where
  "cleanTiff t =
     \<lparr>tiff_tags = (\<lambda>n. if n \<in> set essentialTags \<and> tiffTag t n \<noteq> P Undefined
                        then Some (tiffTag t n) else None),
      tiff_width = keepIfTruthy (tiff_width t),
      tiff_height = keepIfTruthy (tiff_height t),
      tiff_data = keepIfTruthy (tiff_data t)\<rparr>"

definition Tiff_eraseExifFromFile :: "env \<Rightarrow> fsys \<Rightarrow> string \<Rightarrow> bool \<times> fsys" where
  "Tiff_eraseExifFromFile E fs filePath =
     (case fs filePath of
        None \<Rightarrow> (False, fs)
      | Some bytes \<Rightarrow>
          (case UTIF_decode E bytes of
             None \<Rightarrow> (False, fs)
           | Some [] \<Rightarrow> (False, fs)
           | Some (t # ts) \<Rightarrow>
               (case UTIF_encode E [cleanTiff t] of
                  None \<Rightarrow> (False, fs)
                | Some newData \<Rightarrow> (True, fs(filePath \<mapsto> newData)))))"

section \<open>RAW files (exif/rawProcessor.js)\<close>

definition Raw_validateSelection :: "selection option \<Rightarrow> error + unit" where
  "Raw_validateSelection selection =
     (case selection of
        None \<Rightarrow> Inl (Error ''Selection object is required'')
      | Some s \<Rightarrow>
          (case sel_setup s of
             None \<Rightarrow> Inl (Error ''Selection must include setup with camera and lens'')
           | Some d \<Rightarrow>
               (if setup_camera d = None \<or> setup_lens d = None
                then Inl (Error ''Selection must include setup with camera and lens'')
                else if sel_film s = None
                then Inl (Error ''Selection must include film information'')
                else Inr ())))"

definition Raw_applyExifToFile :: "env \<Rightarrow> fsys \<Rightarrow> string \<Rightarrow> selection option \<Rightarrow> bool \<times> fsys" where
  "Raw_applyExifToFile E fs filePath selection =
     (case Raw_validateSelection selection of
        Inl e \<Rightarrow> (False, fs)
      | Inr u \<Rightarrow>
          (if isDngFile filePath then Tiff_applyExifToFile E fs filePath selection
           else createSidecarFile fs filePath selection))"

definition Raw_eraseExifFromFile :: "env \<Rightarrow> fsys \<Rightarrow> string \<Rightarrow> bool \<times> fsys" where
  "Raw_eraseExifFromFile E fs filePath =
     (if isDngFile filePath then Tiff_eraseExifFromFile E fs filePath
      else
        (case removeSidecarFile E fs filePath of
           Inl e \<Rightarrow> (False, fs)
         | Inr (removed, fs') \<Rightarrow> (if removed then (True, fs') else (True, fs'))))"

section \<open>The orchestrator (exif/exifManager.js)\<close>


definition eraseExifFromFile :: "env \<Rightarrow> fsys \<Rightarrow> string \<Rightarrow> bool \<times> fsys" where
  "eraseExifFromFile E fs filePath =
     (let fileType = getFileType filePath in
      if fileType = ''jpeg'' then Jpeg_eraseExifFromFile E fs filePath
      else if fileType = ''tiff'' then Tiff_eraseExifFromFile E fs filePath
      else if fileType = ''dng'' \<or> fileType = ''raw'' then Raw_eraseExifFromFile E fs filePath
      else (False, fs))"

section \<open>Collecting and processing a folder (exif/fileCollector.js)\<close>














section \<open>The supported files of a folder and the verdicts of the orchestrator\<close>






section \<open>Example inputs\<close>

text \<open>
  The selection of the example scenario (a Canon AE-1 with an FD 50mm f/1.2, Kodak Portra
  400 shot at ISO 800), the same selection without a lens, and an environment in which
  the file holds no EXIF segment that \<^verbatim>\<open>piexif.load\<close> reads and is not a TIFF.
\<close>

definition exampleCamera :: camera where
  "exampleCamera = \<lparr>cam_maker = Str ''Canon'', cam_model = Str ''AE-1''\<rparr>"

definition exampleLens :: lens where
  "exampleLens =
     \<lparr>lens_maker = Str ''Canon'', lens_model = Str ''FD'', lens_focalLength = Str ''50'',
      lens_aperture = Str ''1.2'', lens_mount = Str ''FD''\<rparr>"

definition exampleFilm :: film where
  "exampleFilm = \<lparr>film_maker = Str ''Kodak'', film_name = Str ''Portra'', film_iso = Num 400\<rparr>"

definition exampleSelection :: selection where
  "exampleSelection =
     \<lparr>sel_setup = Some \<lparr>setup_camera = Some exampleCamera, setup_lens = Some exampleLens\<rparr>,
      sel_film = Some exampleFilm, sel_shotISO = Num 800, sel_photographer = Str ''Jane Doe''\<rparr>"

definition lenslessSelection :: selection where
  "lenslessSelection =
     exampleSelection\<lparr>sel_setup := Some \<lparr>setup_camera = Some exampleCamera, setup_lens = None\<rparr>\<rparr>"

definition exampleEnv :: env where
  "exampleEnv =
     \<lparr>piexif_load = (\<lambda>d. None), piexif_dump = (\<lambda>e. Some ''Exif''),
      piexif_insert = (\<lambda>b d. Some (d @ b)), piexif_remove = removeExifSegments,
      UTIF_decode = (\<lambda>d. None), UTIF_encode = (\<lambda>ts. None),
      js_parseInt = (\<lambda>p. p), js_parseFloat = (\<lambda>p. p), js_roundTimes10 = (\<lambda>p. p),
      path_join = (\<lambda>a b. a @ ''/'' @ b), path_relative = (\<lambda>a b. drop (Suc (length a)) b),
      path_dirname = (\<lambda>p. []), fs_unremovable = (\<lambda>p. False)\<rparr>"

text \<open>
  A decoded TIFF without tags, an environment in which decoding succeeds and encoding
  fails, and a folder with three supported files, one other file and a subdirectory.
\<close>

definition emptyTiff :: tiff where
  "emptyTiff =
     \<lparr>tiff_tags = Map.empty, tiff_width = P Undefined, tiff_height = P Undefined,
      tiff_data = P Undefined\<rparr>"



text \<open>
  A JPEG without metadata (a quantization table segment and the scan), the same image
  with an EXIF segment in front, the files of the folder, and a folder in which the entry
  \<^verbatim>\<open>lost\<close> cannot be examined (\<^verbatim>\<open>statSync\<close> raises, as for a dangling link).
\<close>

definition exampleJpeg :: string where
  "exampleJpeg =
     [CHR 0xFF, CHR 0xD8, CHR 0xFF, CHR 0xDB, CHR 0x00, CHR 0x03, CHR 0x10,
      CHR 0xFF, CHR 0xDA, CHR 0x12, CHR 0x34, CHR 0xFF, CHR 0xD9]"

definition exampleExifJpeg :: string where
  "exampleExifJpeg =
     [CHR 0xFF, CHR 0xD8,
      CHR 0xFF, CHR 0xE1, CHR 0x00, CHR 0x08, CHR ''E'', CHR ''x'', CHR ''i'', CHR ''f'',
      CHR 0x00, CHR 0x00,
      CHR 0xFF, CHR 0xDB, CHR 0x00, CHR 0x03, CHR 0x10,
      CHR 0xFF, CHR 0xDA, CHR 0x12, CHR 0x34, CHR 0xFF, CHR 0xD9]"





text \<open>
  An EXIF object as \<^verbatim>\<open>piexif.load\<close> returns it for a file that was stamped before: an
  artist and a shot ISO of 800 are already there.
\<close>

definition staleExif :: exifObj where
  "staleExif = createCleanExifObject(''0th'' \<mapsto> [ImageIFD_Artist \<mapsto> P (Str ''John Doe'')],
      ''Exif'' \<mapsto> [ExifIFD_ISOSpeed \<mapsto> P (Num 800)])"

section \<open>Field sets of the serialization tiers\<close>

text \<open>
  The field set of an EXIF object is the set of (IFD, tag) pairs that hold a value. The
  full tier's intended field set is that of a clean object after \<^verbatim>\<open>setAllExifValues\<close>; the
  basic and the minimal tier's are those of the objects \<^verbatim>\<open>createBasicExif\<close> and
  \<^verbatim>\<open>createMinimalExif\<close> hand to \<^verbatim>\<open>piexif.dump\<close>.
\<close>

definition fieldSet :: "exifObj \<Rightarrow> (string \<times> nat) set" where
  "fieldSet e = {(ifd, tag). getTag e ifd tag \<noteq> None}"

definition basicFields :: "selection option \<Rightarrow> (string \<times> nat) set" where
  "basicFields selection = (case basicExifObj selection of Inl e \<Rightarrow> {} | Inr x \<Rightarrow> fieldSet x)"

definition minimalFields :: "selection option \<Rightarrow> (string \<times> nat) set" where
  "minimalFields selection = (case minimalExifObj selection of Inl e \<Rightarrow> {} | Inr x \<Rightarrow> fieldSet x)"

definition fullFields :: "env \<Rightarrow> selection option \<Rightarrow> (string \<times> nat) set" where
  "fullFields E selection =
     (case setAllExifValues E createCleanExifObject selection of Inl e \<Rightarrow> {} | Inr x \<Rightarrow> fieldSet x)"

section \<open>Erasing a proprietary RAW file\<close>

lemma cr2_not_dng: "isDngFile ''roll/frame01.cr2'' = False"
  by code_simp

lemma cr2_is_raw: "getFileType ''roll/frame01.cr2'' = ''raw''"
  by code_simp

text \<open>
  Claim C10, as stated, fails. \<^verbatim>\<open>frame01.cr2\<close> is a RAW file and no DNG. When the entry at
  \<^verbatim>\<open>frame01.cr2.xmp\<close> cannot be unlinked, \<^verbatim>\<open>existsSync\<close> finds it, \<^verbatim>\<open>unlinkSync\<close> raises inside
  \<^verbatim>\<open>removeSidecarFile\<close>, and the \<^verbatim>\<open>catch\<close> of \<^verbatim>\<open>RawProcessor.eraseExifFromFile\<close> returns
  \<^verbatim>\<open>false\<close>.
\<close>

theorem Raw_erase_fails_on_unremovable_sidecar:
  "isDngFile ''roll/frame01.cr2'' = False \<and>
   getFileType ''roll/frame01.cr2'' = ''raw'' \<and>
   removeSidecarFile (exampleEnv\<lparr>fs_unremovable := (\<lambda>p. p = ''roll/frame01.cr2.xmp'')\<rparr>)
     Map.empty ''roll/frame01.cr2'' = Inl SystemError \<and>
   Raw_eraseExifFromFile (exampleEnv\<lparr>fs_unremovable := (\<lambda>p. p = ''roll/frame01.cr2.xmp'')\<rparr>)
     Map.empty ''roll/frame01.cr2'' = (False, Map.empty) \<and>
   eraseExifFromFile (exampleEnv\<lparr>fs_unremovable := (\<lambda>p. p = ''roll/frame01.cr2.xmp'')\<rparr>)
     Map.empty ''roll/frame01.cr2'' = (False, Map.empty)"
  by (simp add: cr2_not_dng cr2_is_raw Raw_eraseExifFromFile_def removeSidecarFile_def
      existsSync_def unlinkSync_def eraseExifFromFile_def exampleEnv_def)

text \<open>
  Claim C10, amended. For a RAW file that is not a DNG, \<^verbatim>\<open>RawProcessor.eraseExifFromFile\<close>
  returns \<^verbatim>\<open>true\<close> whenever \<^verbatim>\<open>removeSidecarFile\<close> returns, whether it removed
  \<^verbatim>\<open>path + ".xmp"\<close> (true) or found nothing there (false): with no sidecar present the files
  are unchanged and the erase still reports success. It returns \<^verbatim>\<open>false\<close> exactly when the
  entry at \<^verbatim>\<open>path + ".xmp"\<close> cannot be unlinked, and then changes nothing. The orchestrator
  returns the same for every file of type \<^verbatim>\<open>raw\<close>.
\<close>

theorem Raw_erase_result:
  "\<not> isDngFile filePath \<Longrightarrow>
     (fst (Raw_eraseExifFromFile E fs filePath) = (\<not> fs_unremovable E (filePath @ ''.xmp''))) \<and>
     (\<not> fs_unremovable E (filePath @ ''.xmp'') \<longrightarrow>
        Raw_eraseExifFromFile E fs filePath = (True, fs(filePath @ ''.xmp'' := None))) \<and>
     (\<not> fs_unremovable E (filePath @ ''.xmp'') \<and> fs (filePath @ ''.xmp'') = None \<longrightarrow>
        removeSidecarFile E fs filePath = Inr (False, fs) \<and>
        Raw_eraseExifFromFile E fs filePath = (True, fs)) \<and>
     (\<not> fs_unremovable E (filePath @ ''.xmp'') \<and> fs (filePath @ ''.xmp'') \<noteq> None \<longrightarrow>
        removeSidecarFile E fs filePath = Inr (True, fs(filePath @ ''.xmp'' := None))) \<and>
     (fs_unremovable E (filePath @ ''.xmp'') \<longrightarrow>
        removeSidecarFile E fs filePath = Inl SystemError \<and>
        Raw_eraseExifFromFile E fs filePath = (False, fs)) \<and>
     (getFileType filePath = ''raw'' \<longrightarrow>
        eraseExifFromFile E fs filePath = Raw_eraseExifFromFile E fs filePath)"
  by (auto simp: Raw_eraseExifFromFile_def removeSidecarFile_def existsSync_def unlinkSync_def
      eraseExifFromFile_def Let_def)

theorem Raw_erase_result_witness:
  "\<not> isDngFile ''roll/frame01.cr2'' \<and>
   \<not> fs_unremovable exampleEnv ''roll/frame01.cr2.xmp'' \<and>
   removeSidecarFile exampleEnv Map.empty ''roll/frame01.cr2'' = Inr (False, Map.empty) \<and>
   Raw_eraseExifFromFile exampleEnv Map.empty ''roll/frame01.cr2'' = (True, Map.empty) \<and>
   eraseExifFromFile exampleEnv Map.empty ''roll/frame01.cr2'' = (True, Map.empty) \<and>
   removeSidecarFile exampleEnv [''roll/frame01.cr2.xmp'' \<mapsto> ''<x/>''] ''roll/frame01.cr2'' =
     Inr (True, [''roll/frame01.cr2.xmp'' \<mapsto> ''<x/>''](''roll/frame01.cr2.xmp'' := None)) \<and>
   fst (Raw_eraseExifFromFile exampleEnv [''roll/frame01.cr2.xmp'' \<mapsto> ''<x/>''] ''roll/frame01.cr2'')"
  using Raw_erase_result [of "''roll/frame01.cr2''" exampleEnv Map.empty]
    Raw_erase_result [of "''roll/frame01.cr2''" exampleEnv "[''roll/frame01.cr2.xmp'' \<mapsto> ''<x/>'']"]
  by (simp add: cr2_not_dng cr2_is_raw exampleEnv_def)

section \<open>The validation precondition\<close>

lemma Jpeg_validate_iff:
  "(Jpeg_validateSelection selection = Inr ()) =
     (\<exists>c l f. theCamera selection = Inr c \<and> theLens selection = Inr l \<and> theFilm selection = Inr f)"
  by (auto simp: Jpeg_validateSelection_def theCamera_def theLens_def theFilm_def
      split: option.splits)

lemma Tiff_validate_iff:
  "(Tiff_validateSelection selection = Inr ()) =
     (\<exists>c l f. theCamera selection = Inr c \<and> theLens selection = Inr l \<and> theFilm selection = Inr f)"
  by (auto simp: Tiff_validateSelection_def theCamera_def theLens_def theFilm_def
      split: option.splits)

lemma Raw_validate_eq: "Raw_validateSelection selection = Tiff_validateSelection selection"
  by (simp add: Raw_validateSelection_def Tiff_validateSelection_def)

text \<open>
  Claim C1, as stated, fails: the example selection without its lens has a camera and a
  film, and both \<^verbatim>\<open>validateSelection\<close> functions raise
  \<^verbatim>\<open>Selection must include setup with camera and lens\<close>; the JPEG and the TIFF
  \<^verbatim>\<open>applyExifToFile\<close> return \<^verbatim>\<open>false\<close> and leave the file as it was.
\<close>

theorem lensless_selection_rejected:
  "theCamera (Some lenslessSelection) = Inr exampleCamera \<and>
   theFilm (Some lenslessSelection) = Inr exampleFilm \<and>
   theLens (Some lenslessSelection) = Inl TypeError \<and>
   Jpeg_validateSelection (Some lenslessSelection) =
     Inl (Error ''Selection must include setup with camera and lens'') \<and>
   Tiff_validateSelection (Some lenslessSelection) =
     Inl (Error ''Selection must include setup with camera and lens'') \<and>
   Jpeg_applyExifToFile exampleEnv [''a.jpg'' \<mapsto> ''JFIF''] ''a.jpg'' (Some lenslessSelection) =
     (False, [''a.jpg'' \<mapsto> ''JFIF'']) \<and>
   Tiff_applyExifToFile exampleEnv [''a.tif'' \<mapsto> ''II*''] ''a.tif'' (Some lenslessSelection) =
     (False, [''a.tif'' \<mapsto> ''II*''])"
  by (simp add: lenslessSelection_def exampleSelection_def theCamera_def theFilm_def theLens_def
      Jpeg_validateSelection_def Tiff_validateSelection_def Jpeg_applyExifToFile_def
      Tiff_applyExifToFile_def)

text \<open>
  Claim C1, amended. On the JPEG, the TIFF and the RAW/DNG apply path a selection passes
  \<^verbatim>\<open>validateSelection\<close> exactly when its camera, its lens and its film are all present;
  the members of the lens (its maker included) are not looked at. A selection that does
  not pass is rejected before the file is read: the apply returns \<^verbatim>\<open>false\<close> and the files
  are untouched.
\<close>

theorem validateSelection_accepts_iff:
  "((Jpeg_validateSelection selection = Inr ()) =
      (\<exists>c l f. theCamera selection = Inr c \<and> theLens selection = Inr l \<and> theFilm selection = Inr f)) \<and>
   ((Tiff_validateSelection selection = Inr ()) =
      (\<exists>c l f. theCamera selection = Inr c \<and> theLens selection = Inr l \<and> theFilm selection = Inr f)) \<and>
   (Jpeg_validateSelection selection \<noteq> Inr () \<longrightarrow>
      Jpeg_applyExifToFile E fs filePath selection = (False, fs)) \<and>
   (Tiff_validateSelection selection \<noteq> Inr () \<longrightarrow>
      Tiff_applyExifToFile E fs filePath selection = (False, fs)) \<and>
   Raw_validateSelection selection = Tiff_validateSelection selection \<and>
   (Raw_validateSelection selection \<noteq> Inr () \<longrightarrow>
      Raw_applyExifToFile E fs filePath selection = (False, fs))"
proof -
  have "Jpeg_validateSelection selection \<noteq> Inr () \<longrightarrow>
          Jpeg_applyExifToFile E fs filePath selection = (False, fs)"
    by (auto simp: Jpeg_applyExifToFile_def split: sum.splits)
  moreover have "Tiff_validateSelection selection \<noteq> Inr () \<longrightarrow>
          Tiff_applyExifToFile E fs filePath selection = (False, fs)"
    by (auto simp: Tiff_applyExifToFile_def split: sum.splits)
  moreover have "Raw_validateSelection selection \<noteq> Inr () \<longrightarrow>
          Raw_applyExifToFile E fs filePath selection = (False, fs)"
    by (auto simp: Raw_applyExifToFile_def split: sum.splits)
  ultimately show ?thesis
    using Jpeg_validate_iff [of selection] Tiff_validate_iff [of selection]
      Raw_validate_eq [of selection]
    by blast
qed

theorem validateSelection_accepts_iff_witness:
  "Jpeg_validateSelection (Some exampleSelection) = Inr () \<and>
   Tiff_validateSelection (Some exampleSelection) = Inr () \<and>
   Jpeg_validateSelection (Some (exampleSelection\<lparr>sel_setup :=
       Some \<lparr>setup_camera = Some exampleCamera,
             setup_lens = Some (exampleLens\<lparr>lens_maker := Undefined\<rparr>)\<rparr>\<rparr>)) = Inr () \<and>
   Jpeg_validateSelection None \<noteq> Inr () \<and>
   Jpeg_applyExifToFile exampleEnv Map.empty ''a.jpg'' None = (False, Map.empty) \<and>
   Tiff_validateSelection None \<noteq> Inr () \<and>
   Tiff_applyExifToFile exampleEnv Map.empty ''a.tif'' None = (False, Map.empty)"
  using validateSelection_accepts_iff [of "Some exampleSelection" exampleEnv Map.empty "''a.jpg''"]
    validateSelection_accepts_iff [of "Some (exampleSelection\<lparr>sel_setup :=
       Some \<lparr>setup_camera = Some exampleCamera,
             setup_lens = Some (exampleLens\<lparr>lens_maker := Undefined\<rparr>)\<rparr>\<rparr>)"
      exampleEnv Map.empty "''a.jpg''"]
    validateSelection_accepts_iff [of None exampleEnv Map.empty "''a.jpg''"]
    validateSelection_accepts_iff [of None exampleEnv Map.empty "''a.tif''"]
  by (simp add: exampleSelection_def theCamera_def theFilm_def theLens_def)

section \<open>Tags written to a TIFF\<close>

text \<open>
  Claim C5 does not hold of the code. \<^verbatim>\<open>setTiffExifValues\<close> on a TIFF without tags, with the
  example selection (film ISO 400, shot ISO 800), leaves tag 34867 (ISOSpeed) unset and
  stores 800 under tag 34864; with a shot ISO of 400, equal to the film ISO, it still
  stores 400 under tag 34864.
\<close>

theorem setTiffExifValues_shotISO_tag:
  "(case setTiffExifValues emptyTiff (Some exampleSelection) of
      Inl e \<Rightarrow> False
    | Inr t \<Rightarrow> tiff_tags t 34867 = None \<and> tiff_tags t 34864 = Some (P (Num 800))) \<and>
   (case setTiffExifValues emptyTiff (Some (exampleSelection\<lparr>sel_shotISO := Num 400\<rparr>)) of
      Inl e \<Rightarrow> False
    | Inr t \<Rightarrow> tiff_tags t 34867 = None \<and> tiff_tags t 34864 = Some (P (Num 400)))"
  by (simp add: setTiffExifValues_def exampleSelection_def exampleFilm_def theCamera_def
      theFilm_def theLens_def theShotISO_def thePhotographer_def bindE_def emptyTiff_def Let_def)

section \<open>Decode and encode failures of a TIFF or DNG\<close>






section \<open>Erasing a JPEG\<close>

text \<open>
  Parsing the bytes that are left when the EXIF segments of a parsed container are dropped
  gives the remaining segments again. The delicate case is a segment shorter than four
  bytes, whose length field reaches into the next segment: that next segment cannot be an
  EXIF segment, so the field reads the same afterwards.
\<close>

lemma segmentsFrom_hd:
  assumes "segmentsFrom d = Some segs"
  shows "segs \<noteq> [] \<and> take 2 (hd segs) = take 2 d \<and> 2 \<le> length d \<and> 2 \<le> length (hd segs)"
proof (cases "take 2 d = SOS")
  case True
  then have "segs = [d]" using assms by (simp add: segmentsFrom.simps [of d])
  moreover have "2 \<le> length d" using True by (auto simp: SOS_def take_Suc_conv_app_nth dest!: arg_cong [where f = length])
  ultimately show ?thesis by simp
next
  case False
  then obtain len rest where u: "unpackH (take 2 (drop 2 d)) = Some len"
    and l: "len + 2 < length d"
    and s: "segs = take (len + 2) d # rest"
    using assms by (auto simp: segmentsFrom.simps [of d] split: option.splits if_splits)
  show ?thesis using l s by (simp add: min_def)
qed

lemma SOS_not_exif: "take 2 seg = SOS \<Longrightarrow> \<not> isExifSegment seg"
  by (simp add: isExifSegment_def SOS_def APP1_def)

lemma SOI_not_exif: "\<not> isExifSegment SOI"
  by (simp add: isExifSegment_def SOI_def APP1_def)

lemma length_field_indep:
  assumes "2 \<le> length s" and "take 2 X = take 2 Y"
  shows "take 2 (drop 2 (s @ X)) = take 2 (drop 2 (s @ Y))"
proof -
  define k where "k = 2 - (length s - 2)"
  have a: "take 2 (drop 2 (s @ Z)) = take 2 (drop 2 s) @ take k Z" for Z
    using assms(1) by (simp add: k_def)
  have "take k X = take k (take 2 X)" by (simp add: min_def k_def)
  also have "\<dots> = take k (take 2 Y)" by (simp only: assms(2))
  also have "\<dots> = take k Y" by (simp add: min_def k_def)
  finally show ?thesis by (simp only: a)
qed

lemma segmentsFrom_append:
  assumes "take 2 s \<noteq> SOS" and "2 \<le> length s"
    and "unpackH (take 2 (drop 2 (s @ R))) = Some (length s - 2)" and "R \<noteq> []"
  shows "segmentsFrom (s @ R) = map_option (Cons s) (segmentsFrom R)"
proof -
  have t: "take 2 (s @ R) = take 2 s" using assms(2) by simp
  have l: "length s - 2 + 2 = length s" using assms(2) by simp
  show ?thesis
    using assms(1,4) unfolding segmentsFrom.simps [of "s @ R"] t assms(3) option.case l
    by simp
qed

lemma short_segment_next:
  assumes "unpackH (take 2 (drop 2 (seg @ rest))) = Some len" and "length seg = len + 2"
    and "len < 2" and "take 2 rest = APP1"
  shows False
proof -
  from assms(4) obtain more where r: "rest = CHR 0xFF # CHR 0xE1 # more"
    by (cases rest; cases "tl rest") (auto simp: APP1_def)
  from assms(3) consider "len = 0" | "len = 1" by linarith
  then show False
  proof cases
    case 1
    then obtain a b where "seg = [a, b]" using assms(2)
      by (cases seg; cases "tl seg") auto
    then show False using assms(1) 1 r by simp
  next
    case 2
    then obtain a b c where "seg = [a, b, c]" using assms(2)
      by (cases seg; cases "tl seg"; cases "tl (tl seg)") auto
    then show False using assms(1) 2 r by simp
  qed
qed

lemma segmentsFrom_filter:
  "segmentsFrom d = Some segs \<Longrightarrow>
   segmentsFrom (concat (filter (\<lambda>seg. \<not> isExifSegment seg) segs)) =
     Some (filter (\<lambda>seg. \<not> isExifSegment seg) segs)"
proof (induction d arbitrary: segs rule: segmentsFrom.induct)
  case (1 d)
  show ?case
  proof (cases "take 2 d = SOS")
    case True
    then have "segs = [d]" using "1.prems" by (simp add: segmentsFrom.simps [of d])
    then show ?thesis using True "1.prems" by (simp add: SOS_not_exif)
  next
    case False
    then obtain len segs' where u: "unpackH (take 2 (drop 2 d)) = Some len"
      and l: "\<not> length d \<le> len + 2"
      and r: "segmentsFrom (drop (len + 2) d) = Some segs'"
      and s: "segs = take (len + 2) d # segs'"
      using "1.prems" by (auto simp: segmentsFrom.simps [of d] split: option.splits if_splits)
    define seg where "seg = take (len + 2) d"
    define rest where "rest = drop (len + 2) d"
    define R where "R = concat (filter (\<lambda>seg. \<not> isExifSegment seg) segs')"
    have d: "d = seg @ rest" by (simp add: seg_def rest_def)
    have s': "segs = seg # segs'" using s by (simp add: seg_def)
    have ls: "length seg = len + 2" using l by (simp add: seg_def)
    have IH: "segmentsFrom R = Some (filter (\<lambda>seg. \<not> isExifSegment seg) segs')"
      unfolding R_def using "1.IH" [OF False u l r] .
    show ?thesis
    proof (cases "isExifSegment seg")
      case True
      then show ?thesis using IH by (simp add: s' R_def)
    next
      case keep: False
      have t2: "take 2 seg \<noteq> SOS" using False ls by (simp add: d)
      have R2: "2 \<le> length R" using segmentsFrom_hd [OF IH] by simp
      have h: "segs' \<noteq> []" "take 2 (hd segs') = take 2 rest" "2 \<le> length (hd segs')"
        using segmentsFrom_hd [OF r] by (simp_all add: rest_def)
      have eq: "take 2 (drop 2 (seg @ R)) = take 2 (drop 2 (seg @ rest))"
      proof (cases "2 \<le> len")
        case True
        then show ?thesis using ls by simp
      next
        case short: False
        have "\<not> isExifSegment (hd segs')"
        proof
          assume "isExifSegment (hd segs')"
          then have "take 2 rest = APP1" using h(2) by (simp add: isExifSegment_def)
          with short_segment_next [of seg rest len] u ls short show False
            by (simp add: d)
        qed
        then have "filter (\<lambda>seg. \<not> isExifSegment seg) segs' =
            hd segs' # filter (\<lambda>seg. \<not> isExifSegment seg) (tl segs')"
          using h(1) by (cases segs') simp_all
        then have "take 2 R = take 2 (hd segs')" using h(3) by (simp add: R_def)
        then have "take 2 R = take 2 rest" using h(2) by simp
        then show ?thesis using length_field_indep [of seg R rest] ls by simp
      qed
      have "unpackH (take 2 (drop 2 (seg @ R))) = Some (length seg - 2)"
        unfolding eq using u ls by (simp add: d)
      moreover have "R \<noteq> []" using R2 by auto
      moreover have "2 \<le> length seg" using ls by simp
      ultimately have "segmentsFrom (seg @ R) = map_option (Cons seg) (segmentsFrom R)"
        using t2 by (simp add: segmentsFrom_append)
      then show ?thesis using keep IH by (simp add: s' R_def)
    qed
  qed
qed

lemma segmentsFrom_concat: "segmentsFrom d = Some segs \<Longrightarrow> concat segs = d"
proof (induction d arbitrary: segs rule: segmentsFrom.induct)
  case (1 d)
  show ?case
  proof (cases "take 2 d = SOS")
    case True
    then show ?thesis using "1.prems" by (auto simp add: segmentsFrom.simps [of d])
  next
    case False
    then obtain len segs' where u: "unpackH (take 2 (drop 2 d)) = Some len"
      and l: "\<not> length d \<le> len + 2"
      and r: "segmentsFrom (drop (len + 2) d) = Some segs'"
      and s: "segs = take (len + 2) d # segs'"
      using "1.prems" by (auto simp: segmentsFrom.simps [of d] split: option.splits if_splits)
    from "1.IH" [OF False u l r] show ?thesis by (simp add: s)
  qed
qed

lemma segmentsFrom_last:
  "segmentsFrom d = Some segs \<Longrightarrow> segs \<noteq> [] \<and> take 2 (last segs) = SOS"
proof (induction d arbitrary: segs rule: segmentsFrom.induct)
  case (1 d)
  show ?case
  proof (cases "take 2 d = SOS")
    case True
    then show ?thesis using "1.prems" by (auto simp add: segmentsFrom.simps [of d])
  next
    case False
    then obtain len segs' where u: "unpackH (take 2 (drop 2 d)) = Some len"
      and l: "\<not> length d \<le> len + 2"
      and r: "segmentsFrom (drop (len + 2) d) = Some segs'"
      and s: "segs = take (len + 2) d # segs'"
      using "1.prems" by (auto simp: segmentsFrom.simps [of d] split: option.splits if_splits)
    from "1.IH" [OF False u l r] show ?thesis by (simp add: s)
  qed
qed

lemma last_filter_keep:
  "segs \<noteq> [] \<Longrightarrow> keep (last segs) \<Longrightarrow>
   filter keep segs \<noteq> [] \<and> last (filter keep segs) = last segs"
  by (cases segs rule: rev_cases) auto

lemma splitIntoSegments_filter:
  assumes "splitIntoSegments d = Some segs"
  shows "splitIntoSegments (concat (filter (\<lambda>seg. \<not> isExifSegment seg) segs)) =
           Some (filter (\<lambda>seg. \<not> isExifSegment seg) segs)"
proof -
  from assms obtain segs' where p: "take 2 d = SOI" and r: "segmentsFrom (drop 2 d) = Some segs'"
    and s: "segs = SOI # segs'"
    by (auto simp: splitIntoSegments_def split: if_splits)
  have "length SOI = 2" by (simp add: SOI_def)
  then show ?thesis
    using segmentsFrom_filter [OF r] by (simp add: s SOI_not_exif splitIntoSegments_def)
qed

lemma splitIntoSegments_concat:
  assumes "splitIntoSegments d = Some segs"
  shows "concat segs = d"
proof -
  from assms obtain segs' where p: "take 2 d = SOI" and r: "segmentsFrom (drop 2 d) = Some segs'"
    and s: "segs = SOI # segs'"
    by (auto simp: splitIntoSegments_def split: if_splits)
  have "concat segs = take 2 d @ drop 2 d" using segmentsFrom_concat [OF r] p s by simp
  then show ?thesis by simp
qed

lemma splitIntoSegments_last:
  assumes "splitIntoSegments d = Some segs"
  shows "take 2 (last segs) = SOS"
proof -
  from assms obtain segs' where r: "segmentsFrom (drop 2 d) = Some segs'"
    and s: "segs = SOI # segs'"
    by (auto simp: splitIntoSegments_def split: if_splits)
  show ?thesis using segmentsFrom_last [OF r] by (simp add: s)
qed

lemma example_segments:
  "splitIntoSegments exampleExifJpeg =
     Some [[CHR 0xFF, CHR 0xD8],
           [CHR 0xFF, CHR 0xE1, CHR 0x00, CHR 0x08, CHR ''E'', CHR ''x'', CHR ''i'', CHR ''f'',
            CHR 0x00, CHR 0x00],
           [CHR 0xFF, CHR 0xDB, CHR 0x00, CHR 0x03, CHR 0x10],
           [CHR 0xFF, CHR 0xDA, CHR 0x12, CHR 0x34, CHR 0xFF, CHR 0xD9]]"
  by code_simp

lemma example_stripped:
  "concat (filter (\<lambda>seg. \<not> isExifSegment seg)
     [[CHR 0xFF, CHR 0xD8],
      [CHR 0xFF, CHR 0xE1, CHR 0x00, CHR 0x08, CHR ''E'', CHR ''x'', CHR ''i'', CHR ''f'',
       CHR 0x00, CHR 0x00],
      [CHR 0xFF, CHR 0xDB, CHR 0x00, CHR 0x03, CHR 0x10],
      [CHR 0xFF, CHR 0xDA, CHR 0x12, CHR 0x34, CHR 0xFF, CHR 0xD9]]) = exampleJpeg"
  by code_simp

lemma example_plain_segments:
  "splitIntoSegments exampleJpeg =
     Some [[CHR 0xFF, CHR 0xD8],
           [CHR 0xFF, CHR 0xDB, CHR 0x00, CHR 0x03, CHR 0x10],
           [CHR 0xFF, CHR 0xDA, CHR 0x12, CHR 0x34, CHR 0xFF, CHR 0xD9]]"
  by code_simp

lemma a_jpg_is_jpeg: "getFileType ''a.jpg'' = ''jpeg''"
  by code_simp

text \<open>
  Claim C8, with \<^verbatim>\<open>piexif.remove\<close> as modelled by \<open>removeExifSegments\<close>. Let the file hold a
  JPEG that parses into \<open>segments\<close>. The erase returns \<^verbatim>\<open>true\<close> and leaves \<open>stripped\<close> in the
  file: the segments that are no EXIF segment, in order and byte for byte. A second erase
  returns \<^verbatim>\<open>true\<close> again and leaves the file as the first one left it. The segments of
  \<open>stripped\<close> are those of the original without the EXIF segments; the last of them, the
  scan data from the start-of-scan marker to the end of the file, is that of the original.
  When the file holds no EXIF segment the erase returns \<^verbatim>\<open>true\<close> and no byte of any file
  changes. The orchestrator does the same for a file of type \<^verbatim>\<open>jpeg\<close>.
\<close>

theorem Jpeg_erase_idempotent:
  assumes "piexif_remove E = removeExifSegments"
    and "fs filePath = Some jpegData"
    and "splitIntoSegments jpegData = Some segments"
    and "stripped = concat (filter (\<lambda>seg. \<not> isExifSegment seg) segments)"
  shows "Jpeg_eraseExifFromFile E fs filePath = (True, fs(filePath \<mapsto> stripped)) \<and>
         Jpeg_eraseExifFromFile E (fs(filePath \<mapsto> stripped)) filePath =
           (True, fs(filePath \<mapsto> stripped)) \<and>
         concat segments = jpegData \<and>
         splitIntoSegments stripped = Some (filter (\<lambda>seg. \<not> isExifSegment seg) segments) \<and>
         take 2 (last segments) = SOS \<and>
         last (filter (\<lambda>seg. \<not> isExifSegment seg) segments) = last segments \<and>
         ((\<forall>seg \<in> set segments. \<not> isExifSegment seg) \<longrightarrow>
            stripped = jpegData \<and> Jpeg_eraseExifFromFile E fs filePath = (True, fs)) \<and>
         (getFileType filePath = ''jpeg'' \<longrightarrow>
            eraseExifFromFile E fs filePath = Jpeg_eraseExifFromFile E fs filePath)"
proof -
  let ?keep = "\<lambda>seg. \<not> isExifSegment seg"
  have r1: "removeExifSegments jpegData = Some stripped"
    by (simp add: removeExifSegments_def assms(3,4))
  have s2: "splitIntoSegments stripped = Some (filter ?keep segments)"
    unfolding assms(4) by (rule splitIntoSegments_filter [OF assms(3)])
  have r2: "removeExifSegments stripped = Some stripped"
    unfolding removeExifSegments_def s2 by (simp add: assms(4))
  have e1: "Jpeg_eraseExifFromFile E fs filePath = (True, fs(filePath \<mapsto> stripped))"
    by (simp add: Jpeg_eraseExifFromFile_def assms(1,2) r1)
  have e2: "Jpeg_eraseExifFromFile E (fs(filePath \<mapsto> stripped)) filePath =
           (True, fs(filePath \<mapsto> stripped))"
    by (simp add: Jpeg_eraseExifFromFile_def assms(1) r2)
  have c: "concat segments = jpegData" by (rule splitIntoSegments_concat [OF assms(3)])
  have l: "take 2 (last segments) = SOS" by (rule splitIntoSegments_last [OF assms(3)])
  have ne: "segments \<noteq> []" using assms(3) by (auto simp: splitIntoSegments_def split: if_splits)
  have lf: "last (filter ?keep segments) = last segments"
    using last_filter_keep [of segments ?keep] ne SOS_not_exif [OF l] by simp
  have same: "(\<forall>seg \<in> set segments. \<not> isExifSegment seg) \<longrightarrow>
            stripped = jpegData \<and> Jpeg_eraseExifFromFile E fs filePath = (True, fs)"
  proof
    assume "\<forall>seg \<in> set segments. \<not> isExifSegment seg"
    then have "filter ?keep segments = segments" by simp
    then have "stripped = jpegData" using c assms(4) by simp
    moreover have "fs(filePath \<mapsto> jpegData) = fs" using assms(2) by (simp add: map_upd_triv)
    ultimately show "stripped = jpegData \<and> Jpeg_eraseExifFromFile E fs filePath = (True, fs)"
      using e1 by simp
  qed
  have o: "getFileType filePath = ''jpeg'' \<longrightarrow>
            eraseExifFromFile E fs filePath = Jpeg_eraseExifFromFile E fs filePath"
    by (simp add: eraseExifFromFile_def)
  from e1 e2 c s2 l lf same o show ?thesis by blast
qed

theorem Jpeg_erase_idempotent_witness:
  "Jpeg_eraseExifFromFile exampleEnv [''a.jpg'' \<mapsto> exampleExifJpeg] ''a.jpg'' =
     (True, [''a.jpg'' \<mapsto> exampleJpeg]) \<and>
   Jpeg_eraseExifFromFile exampleEnv [''a.jpg'' \<mapsto> exampleJpeg] ''a.jpg'' =
     (True, [''a.jpg'' \<mapsto> exampleJpeg]) \<and>
   eraseExifFromFile exampleEnv [''a.jpg'' \<mapsto> exampleExifJpeg] ''a.jpg'' =
     (True, [''a.jpg'' \<mapsto> exampleJpeg]) \<and>
   splitIntoSegments exampleJpeg =
     Some [[CHR 0xFF, CHR 0xD8],
           [CHR 0xFF, CHR 0xDB, CHR 0x00, CHR 0x03, CHR 0x10],
           [CHR 0xFF, CHR 0xDA, CHR 0x12, CHR 0x34, CHR 0xFF, CHR 0xD9]] \<and>
   filter isExifSegment [[CHR 0xFF, CHR 0xD8],
           [CHR 0xFF, CHR 0xDB, CHR 0x00, CHR 0x03, CHR 0x10],
           [CHR 0xFF, CHR 0xDA, CHR 0x12, CHR 0x34, CHR 0xFF, CHR 0xD9]] = [] \<and>
   exampleExifJpeg \<noteq> exampleJpeg"
proof -
  let ?plain = "[[CHR 0xFF, CHR 0xD8],
           [CHR 0xFF, CHR 0xDB, CHR 0x00, CHR 0x03, CHR 0x10],
           [CHR 0xFF, CHR 0xDA, CHR 0x12, CHR 0x34, CHR 0xFF, CHR 0xD9]]"
  have p: "piexif_remove exampleEnv = removeExifSegments" by (simp add: exampleEnv_def)
  have f: "[''a.jpg'' \<mapsto> exampleExifJpeg] ''a.jpg'' = Some exampleExifJpeg" by simp
  have f2: "[''a.jpg'' \<mapsto> exampleJpeg] ''a.jpg'' = Some exampleJpeg" by simp
  have u: "[''a.jpg'' \<mapsto> exampleExifJpeg](''a.jpg'' \<mapsto> exampleJpeg) = [''a.jpg'' \<mapsto> exampleJpeg]"
    by simp
  have n: "exampleExifJpeg \<noteq> exampleJpeg" by (simp add: exampleExifJpeg_def exampleJpeg_def)
  have none: "\<forall>seg \<in> set ?plain. \<not> isExifSegment seg"
    by (simp add: isExifSegment_def APP1_def)
  then have same: "exampleJpeg = concat (filter (\<lambda>seg. \<not> isExifSegment seg) ?plain)"
    by (simp add: exampleJpeg_def)
  note t = Jpeg_erase_idempotent [where E = exampleEnv and fs = "[''a.jpg'' \<mapsto> exampleExifJpeg]"
      and filePath = "''a.jpg''" and jpegData = exampleExifJpeg and stripped = exampleJpeg,
      OF p f example_segments example_stripped [symmetric]]
  note t2 = Jpeg_erase_idempotent [where E = exampleEnv and fs = "[''a.jpg'' \<mapsto> exampleJpeg]"
      and filePath = "''a.jpg''" and jpegData = exampleJpeg and stripped = exampleJpeg,
      OF p f2 example_plain_segments same]
  have e2: "Jpeg_eraseExifFromFile exampleEnv [''a.jpg'' \<mapsto> exampleJpeg] ''a.jpg'' =
     (True, [''a.jpg'' \<mapsto> exampleJpeg])"
    using t2 none by blast
  have nofilter: "filter isExifSegment ?plain = []"
    using none by simp
  from t a_jpg_is_jpeg n example_plain_segments e2 nofilter show ?thesis unfolding u by simp
qed

section \<open>Processing a folder\<close>















section \<open>What the populate step writes\<close>

lemma getTag_setExifValue:
  "getTag (setExifValue e k v) i t =
     (if truthy v \<and> \<not> blankString v \<and> EXIF_TAGS k = (i, t) then Some v else getTag e i t)"
  by (auto simp: setExifValue_def getTag_def split: prod.splits option.splits)

lemma setAll_getTag:
  assumes "setAllExifValues E e selection = Inr e'"
  shows "\<exists>s c l f. selection = Some s \<and> theCamera selection = Inr c \<and> theLens selection = Inr l \<and>
           theFilm selection = Inr f \<and>
           getTag e' ''0th'' ImageIFD_Make =
             (if truthyP (cam_maker c) \<and> \<not> blankString (P (cam_maker c)) then Some (P (cam_maker c))
              else getTag e ''0th'' ImageIFD_Make) \<and>
           getTag e' ''0th'' ImageIFD_Model =
             (if truthyP (cam_model c) \<and> \<not> blankString (P (cam_model c)) then Some (P (cam_model c))
              else getTag e ''0th'' ImageIFD_Model) \<and>
           getTag e' ''0th'' ImageIFD_Artist =
             (if truthyP (sel_photographer s) \<and> \<not> blankString (P (sel_photographer s))
              then Some (P (sel_photographer s)) else getTag e ''0th'' ImageIFD_Artist) \<and>
           getTag e' ''Exif'' ExifIFD_ISOSpeedRatings = Some (Arr [film_iso f]) \<and>
           getTag e' ''Exif'' ExifIFD_ISOSpeed =
             (if truthyP (sel_shotISO s) \<and> \<not> strictEq (sel_shotISO s) (film_iso f) \<and>
                 \<not> blankString (P (sel_shotISO s))
              then Some (P (sel_shotISO s)) else getTag e ''Exif'' ExifIFD_ISOSpeed) \<and>
           getTag e' ''Exif'' ExifIFD_LensMake =
             (if truthyP (lens_maker l) \<and> \<not> blankString (P (lens_maker l)) then Some (P (lens_maker l))
              else getTag e ''Exif'' ExifIFD_LensMake) \<and>
           getTag e' ''Exif'' ExifIFD_LensModel =
             (if trim (getLensModelWithAperture l) \<noteq> []
              then Some (P (Str (getLensModelWithAperture l)))
              else getTag e ''Exif'' ExifIFD_LensModel)"
proof -
  from assms obtain s d c l f where
    sel: "selection = Some s" "sel_setup s = Some d" "setup_camera d = Some c"
      "setup_lens d = Some l" "sel_film s = Some f"
    by (auto simp: setAllExifValues_def bindE_def theCamera_def theLens_def theFilm_def Let_def
        split: option.splits sum.splits)
  have acc: "theCamera selection = Inr c" "theLens selection = Inr l" "theFilm selection = Inr f"
    "theShotISO selection = Inr (sel_shotISO s)" "thePhotographer selection = Inr (sel_photographer s)"
    using sel by (simp_all add: theCamera_def theLens_def theFilm_def theShotISO_def thePhotographer_def)
  note tags = ExifIFD_ISOSpeed_def ExifIFD_ISOSpeedRatings_def ExifIFD_LensMake_def
      ExifIFD_LensModel_def ExifIFD_FocalLength_def ExifIFD_FNumber_def ImageIFD_Artist_def
      ImageIFD_Make_def ImageIFD_Model_def
  from assms have e': "e' = (let e1 = setExifValue e cameraMaker (P (cam_maker c));
         e2 = setExifValue e1 cameraModel (P (cam_model c));
         e3 = setExifValue e2 photographer (P (sel_photographer s));
         e4 = setExifValue e3 filmISO (Arr [film_iso f]);
         e5 = (if truthyP (sel_shotISO s) \<and> \<not> strictEq (sel_shotISO s) (film_iso f)
               then setExifValue e4 shotISO (P (sel_shotISO s)) else e4);
         e6 = setExifValue e5 lensMaker (P (lens_maker l));
         e7 = setExifValue e6 lensModel (P (Str (getLensModelWithAperture l)));
         e8 = (if truthyP (lens_focalLength l)
               then setExifValue e7 focalLength (Arr [js_parseInt E (lens_focalLength l), Num 1])
               else e7);
         e9 = (if truthyP (lens_aperture l)
               then setExifValue e8 fNumber
                      (Arr [js_roundTimes10 E (js_parseFloat E (lens_aperture l)), Num 10])
               else e8)
     in e9)"
    by (simp add: setAllExifValues_def acc bindE_def Let_def)
  have "getTag e' ''0th'' ImageIFD_Make =
             (if truthyP (cam_maker c) \<and> \<not> blankString (P (cam_maker c)) then Some (P (cam_maker c))
              else getTag e ''0th'' ImageIFD_Make)"
    unfolding e' by (simp add: Let_def getTag_setExifValue tags)
  moreover have "getTag e' ''0th'' ImageIFD_Model =
             (if truthyP (cam_model c) \<and> \<not> blankString (P (cam_model c)) then Some (P (cam_model c))
              else getTag e ''0th'' ImageIFD_Model)"
    unfolding e' by (simp add: Let_def getTag_setExifValue tags)
  moreover have "getTag e' ''0th'' ImageIFD_Artist =
             (if truthyP (sel_photographer s) \<and> \<not> blankString (P (sel_photographer s))
              then Some (P (sel_photographer s)) else getTag e ''0th'' ImageIFD_Artist)"
    unfolding e' by (simp add: Let_def getTag_setExifValue tags)
  moreover have "getTag e' ''Exif'' ExifIFD_ISOSpeedRatings = Some (Arr [film_iso f])"
    unfolding e' by (simp add: Let_def getTag_setExifValue tags)
  moreover have "getTag e' ''Exif'' ExifIFD_ISOSpeed =
             (if truthyP (sel_shotISO s) \<and> \<not> strictEq (sel_shotISO s) (film_iso f) \<and>
                 \<not> blankString (P (sel_shotISO s))
              then Some (P (sel_shotISO s)) else getTag e ''Exif'' ExifIFD_ISOSpeed)"
    unfolding e' by (simp add: Let_def getTag_setExifValue tags)
  moreover have "getTag e' ''Exif'' ExifIFD_LensMake =
             (if truthyP (lens_maker l) \<and> \<not> blankString (P (lens_maker l)) then Some (P (lens_maker l))
              else getTag e ''Exif'' ExifIFD_LensMake)"
    unfolding e' by (simp add: Let_def getTag_setExifValue tags)
  moreover have "getTag e' ''Exif'' ExifIFD_LensModel =
             (if trim (getLensModelWithAperture l) \<noteq> []
              then Some (P (Str (getLensModelWithAperture l)))
              else getTag e ''Exif'' ExifIFD_LensModel)"
    unfolding e' by (auto simp add: Let_def getTag_setExifValue tags trim_def)
  ultimately show ?thesis using sel(1) acc by blast
qed

lemma setAll_ok:
  "theCamera selection = Inr c \<Longrightarrow> theLens selection = Inr l \<Longrightarrow> theFilm selection = Inr f \<Longrightarrow>
   \<exists>e'. setAllExifValues E e selection = Inr e'"
  by (cases selection)
    (auto simp: setAllExifValues_def bindE_def theCamera_def theShotISO_def thePhotographer_def Let_def)

lemma trim_blank: "trim ''  '' = []"
  by code_simp

lemma setAll_getTag_lens:
  assumes "setAllExifValues E e selection = Inr e'"
  shows "\<exists>l. theLens selection = Inr l \<and>
           getTag e' ''Exif'' ExifIFD_FocalLength =
             (if truthyP (lens_focalLength l)
              then Some (Arr [js_parseInt E (lens_focalLength l), Num 1])
              else getTag e ''Exif'' ExifIFD_FocalLength) \<and>
           getTag e' ''Exif'' ExifIFD_FNumber =
             (if truthyP (lens_aperture l)
              then Some (Arr [js_roundTimes10 E (js_parseFloat E (lens_aperture l)), Num 10])
              else getTag e ''Exif'' ExifIFD_FNumber)"
proof -
  from assms obtain s d c l f where
    sel: "selection = Some s" "sel_setup s = Some d" "setup_camera d = Some c"
      "setup_lens d = Some l" "sel_film s = Some f"
    by (auto simp: setAllExifValues_def bindE_def theCamera_def theLens_def theFilm_def Let_def
        split: option.splits sum.splits)
  have acc: "theCamera selection = Inr c" "theLens selection = Inr l" "theFilm selection = Inr f"
    "theShotISO selection = Inr (sel_shotISO s)" "thePhotographer selection = Inr (sel_photographer s)"
    using sel by (simp_all add: theCamera_def theLens_def theFilm_def theShotISO_def thePhotographer_def)
  note tags = ExifIFD_ISOSpeed_def ExifIFD_ISOSpeedRatings_def ExifIFD_LensMake_def
      ExifIFD_LensModel_def ExifIFD_FocalLength_def ExifIFD_FNumber_def ImageIFD_Artist_def
      ImageIFD_Make_def ImageIFD_Model_def
  from assms have e': "e' = (let e1 = setExifValue e cameraMaker (P (cam_maker c));
         e2 = setExifValue e1 cameraModel (P (cam_model c));
         e3 = setExifValue e2 photographer (P (sel_photographer s));
         e4 = setExifValue e3 filmISO (Arr [film_iso f]);
         e5 = (if truthyP (sel_shotISO s) \<and> \<not> strictEq (sel_shotISO s) (film_iso f)
               then setExifValue e4 shotISO (P (sel_shotISO s)) else e4);
         e6 = setExifValue e5 lensMaker (P (lens_maker l));
         e7 = setExifValue e6 lensModel (P (Str (getLensModelWithAperture l)));
         e8 = (if truthyP (lens_focalLength l)
               then setExifValue e7 focalLength (Arr [js_parseInt E (lens_focalLength l), Num 1])
               else e7);
         e9 = (if truthyP (lens_aperture l)
               then setExifValue e8 fNumber
                      (Arr [js_roundTimes10 E (js_parseFloat E (lens_aperture l)), Num 10])
               else e8)
     in e9)"
    by (simp add: setAllExifValues_def acc bindE_def Let_def)
  have "getTag e' ''Exif'' ExifIFD_FocalLength =
             (if truthyP (lens_focalLength l)
              then Some (Arr [js_parseInt E (lens_focalLength l), Num 1])
              else getTag e ''Exif'' ExifIFD_FocalLength)"
    unfolding e' by (simp add: Let_def getTag_setExifValue tags)
  moreover have "getTag e' ''Exif'' ExifIFD_FNumber =
             (if truthyP (lens_aperture l)
              then Some (Arr [js_roundTimes10 E (js_parseFloat E (lens_aperture l)), Num 10])
              else getTag e ''Exif'' ExifIFD_FNumber)"
    unfolding e' by (simp add: Let_def getTag_setExifValue tags)
  ultimately show ?thesis using acc by blast
qed

lemma getTag_buckets:
  "getTag (m(''0th'' \<mapsto> z, ''Exif'' \<mapsto> x)) ifd tag =
     (if ifd = ''Exif'' then x tag else if ifd = ''0th'' then z tag else getTag m ifd tag)"
  by (simp add: getTag_def)

lemma getTag_clean: "getTag createCleanExifObject ifd tag = None"
  by (simp add: getTag_def createCleanExifObject_def)

lemma getTag_other:
  "getTag [''GPS'' \<mapsto> Map.empty, ''Interop'' \<mapsto> Map.empty, ''1st'' \<mapsto> Map.empty] ifd tag = None"
  by (simp add: getTag_def)

lemma minimal_reorder:
  "[''0th'' \<mapsto> z, ''Exif'' \<mapsto> x, ''GPS'' \<mapsto> Map.empty, ''Interop'' \<mapsto> Map.empty, ''1st'' \<mapsto> Map.empty] =
   [''GPS'' \<mapsto> Map.empty, ''Interop'' \<mapsto> Map.empty, ''1st'' \<mapsto> (Map.empty :: bucket)](''0th'' \<mapsto> z, ''Exif'' \<mapsto> x)"
  by (rule ext) simp

lemma setAll_suppression:
  assumes "setAllExifValues E e selection = Inr e'"
    and "selection = Some s"
    and "theCamera selection = Inr c" and "theLens selection = Inr l" and "theFilm selection = Inr f"
  shows "(\<not> truthyP (sel_shotISO s) \<or> sel_shotISO s = film_iso f \<longrightarrow>
            getTag e' ''Exif'' ExifIFD_ISOSpeed = getTag e ''Exif'' ExifIFD_ISOSpeed) \<and>
         (cam_maker c = Null \<or> cam_maker c = Undefined \<or> blankString (P (cam_maker c)) \<longrightarrow>
            getTag e' ''0th'' ImageIFD_Make = getTag e ''0th'' ImageIFD_Make) \<and>
         (cam_model c = Null \<or> cam_model c = Undefined \<or> blankString (P (cam_model c)) \<longrightarrow>
            getTag e' ''0th'' ImageIFD_Model = getTag e ''0th'' ImageIFD_Model) \<and>
         (sel_photographer s = Null \<or> sel_photographer s = Undefined \<or>
            blankString (P (sel_photographer s)) \<longrightarrow>
            getTag e' ''0th'' ImageIFD_Artist = getTag e ''0th'' ImageIFD_Artist) \<and>
         (lens_maker l = Null \<or> lens_maker l = Undefined \<or> blankString (P (lens_maker l)) \<longrightarrow>
            getTag e' ''Exif'' ExifIFD_LensMake = getTag e ''Exif'' ExifIFD_LensMake) \<and>
         (trim (getLensModelWithAperture l) = [] \<longrightarrow>
            getTag e' ''Exif'' ExifIFD_LensModel = getTag e ''Exif'' ExifIFD_LensModel) \<and>
         (\<forall>ifd tag str.
            (ifd, tag) \<in> {(''0th'', ImageIFD_Make), (''0th'', ImageIFD_Model), (''0th'', ImageIFD_Artist),
               (''Exif'', ExifIFD_LensMake), (''Exif'', ExifIFD_LensModel)} \<and>
            getTag e' ifd tag = Some (P (Str str)) \<and> trim str = [] \<longrightarrow>
            getTag e ifd tag = Some (P (Str str)))"
proof -
  from setAll_getTag [OF assms(1)] assms(2-5) have
    g: "getTag e' ''0th'' ImageIFD_Make =
             (if truthyP (cam_maker c) \<and> \<not> blankString (P (cam_maker c)) then Some (P (cam_maker c))
              else getTag e ''0th'' ImageIFD_Make)"
       "getTag e' ''0th'' ImageIFD_Model =
             (if truthyP (cam_model c) \<and> \<not> blankString (P (cam_model c)) then Some (P (cam_model c))
              else getTag e ''0th'' ImageIFD_Model)"
       "getTag e' ''0th'' ImageIFD_Artist =
             (if truthyP (sel_photographer s) \<and> \<not> blankString (P (sel_photographer s))
              then Some (P (sel_photographer s)) else getTag e ''0th'' ImageIFD_Artist)"
       "getTag e' ''Exif'' ExifIFD_ISOSpeed =
             (if truthyP (sel_shotISO s) \<and> \<not> strictEq (sel_shotISO s) (film_iso f) \<and>
                 \<not> blankString (P (sel_shotISO s))
              then Some (P (sel_shotISO s)) else getTag e ''Exif'' ExifIFD_ISOSpeed)"
       "getTag e' ''Exif'' ExifIFD_LensMake =
             (if truthyP (lens_maker l) \<and> \<not> blankString (P (lens_maker l)) then Some (P (lens_maker l))
              else getTag e ''Exif'' ExifIFD_LensMake)"
       "getTag e' ''Exif'' ExifIFD_LensModel =
             (if trim (getLensModelWithAperture l) \<noteq> []
              then Some (P (Str (getLensModelWithAperture l)))
              else getTag e ''Exif'' ExifIFD_LensModel)"
    by auto
  have iso: "\<not> truthyP (sel_shotISO s) \<or> sel_shotISO s = film_iso f \<longrightarrow>
            getTag e' ''Exif'' ExifIFD_ISOSpeed = getTag e ''Exif'' ExifIFD_ISOSpeed"
    unfolding g(4) by (cases "sel_shotISO s") (auto simp: strictEq_def)
  have mk: "cam_maker c = Null \<or> cam_maker c = Undefined \<or> blankString (P (cam_maker c)) \<longrightarrow>
            getTag e' ''0th'' ImageIFD_Make = getTag e ''0th'' ImageIFD_Make"
    unfolding g(1) by auto
  have md: "cam_model c = Null \<or> cam_model c = Undefined \<or> blankString (P (cam_model c)) \<longrightarrow>
            getTag e' ''0th'' ImageIFD_Model = getTag e ''0th'' ImageIFD_Model"
    unfolding g(2) by auto
  have ar: "sel_photographer s = Null \<or> sel_photographer s = Undefined \<or>
            blankString (P (sel_photographer s)) \<longrightarrow>
            getTag e' ''0th'' ImageIFD_Artist = getTag e ''0th'' ImageIFD_Artist"
    unfolding g(3) by auto
  have lm: "lens_maker l = Null \<or> lens_maker l = Undefined \<or> blankString (P (lens_maker l)) \<longrightarrow>
            getTag e' ''Exif'' ExifIFD_LensMake = getTag e ''Exif'' ExifIFD_LensMake"
    unfolding g(5) by auto
  have lo: "trim (getLensModelWithAperture l) = [] \<longrightarrow>
            getTag e' ''Exif'' ExifIFD_LensModel = getTag e ''Exif'' ExifIFD_LensModel"
    unfolding g(6) by auto
  have blank: "\<forall>ifd tag str.
            (ifd, tag) \<in> {(''0th'', ImageIFD_Make), (''0th'', ImageIFD_Model), (''0th'', ImageIFD_Artist),
               (''Exif'', ExifIFD_LensMake), (''Exif'', ExifIFD_LensModel)} \<and>
            getTag e' ifd tag = Some (P (Str str)) \<and> trim str = [] \<longrightarrow>
            getTag e ifd tag = Some (P (Str str))"
  proof (intro allI impI)
    fix ifd tag str
    assume a: "(ifd, tag) \<in> {(''0th'', ImageIFD_Make), (''0th'', ImageIFD_Model), (''0th'', ImageIFD_Artist),
               (''Exif'', ExifIFD_LensMake), (''Exif'', ExifIFD_LensModel)} \<and>
            getTag e' ifd tag = Some (P (Str str)) \<and> trim str = []"
    then have b: "trim str = []" and v: "getTag e' ifd tag = Some (P (Str str))" by simp_all
    from a consider "ifd = ''0th'' \<and> tag = ImageIFD_Make" | "ifd = ''0th'' \<and> tag = ImageIFD_Model"
      | "ifd = ''0th'' \<and> tag = ImageIFD_Artist" | "ifd = ''Exif'' \<and> tag = ExifIFD_LensMake"
      | "ifd = ''Exif'' \<and> tag = ExifIFD_LensModel"
      by blast
    then show "getTag e ifd tag = Some (P (Str str))"
    proof cases
      case 1
      with v b g(1) show ?thesis by (auto split: if_splits)
    next
      case 2
      with v b g(2) show ?thesis by (auto split: if_splits)
    next
      case 3
      with v b g(3) show ?thesis by (auto split: if_splits)
    next
      case 4
      with v b g(5) show ?thesis by (auto split: if_splits)
    next
      case 5
      with v b g(6) show ?thesis by (auto split: if_splits)
    qed
  qed
  show ?thesis
    apply (intro conjI)
    apply (rule iso) apply (rule mk) apply (rule md) apply (rule ar) apply (rule lm) apply (rule lo)
    apply (rule blank) done
qed

lemma basic_tags:
  assumes "theCamera selection = Inr c" "theFilm selection = Inr f" "selection = Some s"
  shows "\<exists>b. basicExifObj selection = Inr b \<and>
           getTag b ''0th'' ImageIFD_Make =
             (if truthyP (cam_maker c) then Some (P (cam_maker c)) else None) \<and>
           getTag b ''0th'' ImageIFD_Model =
             (if truthyP (cam_model c) then Some (P (cam_model c)) else None) \<and>
           getTag b ''0th'' ImageIFD_Artist =
             (if truthyP (sel_photographer s) then Some (P (sel_photographer s)) else None) \<and>
           getTag b ''Exif'' ExifIFD_ISOSpeed =
             (if truthyP (sel_shotISO s) \<and> \<not> strictEq (sel_shotISO s) (film_iso f)
              then Some (P (sel_shotISO s)) else None) \<and>
           getTag b ''Exif'' ExifIFD_LensMake = None \<and>
           getTag b ''Exif'' ExifIFD_LensModel = None"
proof -
  have acc: "theShotISO selection = Inr (sel_shotISO s)"
    "thePhotographer selection = Inr (sel_photographer s)"
    using assms(3) by (simp_all add: theShotISO_def thePhotographer_def)
  note tags = ExifIFD_ISOSpeed_def ExifIFD_ISOSpeedRatings_def ExifIFD_LensMake_def
      ExifIFD_LensModel_def ImageIFD_Artist_def ImageIFD_Make_def ImageIFD_Model_def
  show ?thesis
    by (simp add: basicExifObj_def assms(1,2) acc bindE_def Let_def getTag_buckets tags)
qed

lemma minimal_tags:
  assumes "theCamera selection = Inr c" "theFilm selection = Inr f" "selection = Some s"
  shows "\<exists>m. minimalExifObj selection = Inr m \<and>
           getTag m ''0th'' ImageIFD_Make = Some (P (unknownIfFalsy (cam_maker c))) \<and>
           getTag m ''0th'' ImageIFD_Model = Some (P (unknownIfFalsy (cam_model c))) \<and>
           getTag m ''0th'' ImageIFD_Artist = Some (P (unknownIfFalsy (sel_photographer s))) \<and>
           getTag m ''Exif'' ExifIFD_ISOSpeed =
             (if truthyP (sel_shotISO s) \<and> \<not> strictEq (sel_shotISO s) (film_iso f) \<and>
                 isNumber (sel_shotISO s)
              then Some (P (sel_shotISO s)) else None) \<and>
           getTag m ''Exif'' ExifIFD_LensMake = None \<and>
           getTag m ''Exif'' ExifIFD_LensModel = None"
proof -
  have acc: "theShotISO selection = Inr (sel_shotISO s)"
    "thePhotographer selection = Inr (sel_photographer s)"
    using assms(3) by (simp_all add: theShotISO_def thePhotographer_def)
  note tags = ExifIFD_ISOSpeed_def ExifIFD_ISOSpeedRatings_def ExifIFD_LensMake_def
      ExifIFD_LensModel_def ImageIFD_Artist_def ImageIFD_Make_def ImageIFD_Model_def
  show ?thesis
    by (simp add: minimalExifObj_def assms(1,2) acc bindE_def Let_def minimal_reorder
        getTag_buckets tags)
qed

lemma Jpeg_apply_tiers:
  assumes "Jpeg_validateSelection selection = Inr ()"
    and "fs filePath = Some jpegData"
    and "setAllExifValues E
           (case piexif_load E jpegData of None \<Rightarrow> createCleanExifObject | Some x \<Rightarrow> x)
           selection = Inr e'"
    and "basicExifObj selection = Inr b" and "minimalExifObj selection = Inr m"
  shows "Jpeg_applyExifToFile E fs filePath selection =
           (case (case piexif_dump E e' of
                    Some x \<Rightarrow> Some x
                  | None \<Rightarrow> (case piexif_dump E b of Some x \<Rightarrow> Some x | None \<Rightarrow> piexif_dump E m)) of
              None \<Rightarrow> (False, fs)
            | Some exifBytes \<Rightarrow>
                (case piexif_insert E exifBytes jpegData of
                   None \<Rightarrow> (False, fs)
                 | Some newJpegData \<Rightarrow> (True, fs(filePath \<mapsto> newJpegData))))"
  using assms
  by (simp add: Jpeg_applyExifToFile_def bindE_def createBasicExif_def createMinimalExif_def
      dumpE_def Let_def split: option.splits)

text \<open>
  Claim C6, as stated, fails. \<^verbatim>\<open>applyExifToFile\<close> populates the EXIF object that
  \<^verbatim>\<open>piexif.load\<close> returned. With a loaded object that already holds ISOSpeed 800 and an
  artist, a selection whose shot ISO equals the film ISO (400) and whose photographer is
  \<^verbatim>\<open>undefined\<close> leaves both tags in the populated object. And for the same selection the
  object of the minimal tier, which is serialized when \<^verbatim>\<open>piexif.dump\<close> raises on the first
  two, holds the artist \<^verbatim>\<open>Unknown\<close>.
\<close>

theorem stale_shotISO_tag_kept:
  "(case setAllExifValues exampleEnv staleExif
           (Some (exampleSelection\<lparr>sel_shotISO := Num 400, sel_photographer := Undefined\<rparr>)) of
      Inl e \<Rightarrow> False
    | Inr e' \<Rightarrow> getTag e' ''Exif'' ExifIFD_ISOSpeed = Some (P (Num 800)) \<and>
               getTag e' ''0th'' ImageIFD_Artist = Some (P (Str ''John Doe''))) \<and>
   (case minimalExifObj
           (Some (exampleSelection\<lparr>sel_shotISO := Num 400, sel_photographer := Undefined\<rparr>)) of
      Inl e \<Rightarrow> False
    | Inr m \<Rightarrow> getTag m ''0th'' ImageIFD_Artist = Some (P (Str ''Unknown'')))"
proof -
  let ?s = "exampleSelection\<lparr>sel_shotISO := Num 400, sel_photographer := Undefined\<rparr>"
  note tags = ExifIFD_ISOSpeed_def ExifIFD_ISOSpeedRatings_def ExifIFD_LensMake_def
      ExifIFD_LensModel_def ExifIFD_FocalLength_def ExifIFD_FNumber_def ImageIFD_Artist_def
      ImageIFD_Make_def ImageIFD_Model_def
  have "getTag staleExif ''Exif'' ExifIFD_ISOSpeed = Some (P (Num 800))"
    "getTag staleExif ''0th'' ImageIFD_Artist = Some (P (Str ''John Doe''))"
    by (simp_all add: getTag_def staleExif_def)
  then have full: "(case setAllExifValues exampleEnv staleExif (Some ?s) of
      Inl e \<Rightarrow> False
    | Inr e' \<Rightarrow> getTag e' ''Exif'' ExifIFD_ISOSpeed = Some (P (Num 800)) \<and>
               getTag e' ''0th'' ImageIFD_Artist = Some (P (Str ''John Doe'')))"
    by (simp add: setAllExifValues_def exampleSelection_def exampleFilm_def exampleCamera_def
        exampleLens_def theCamera_def theFilm_def theLens_def theShotISO_def thePhotographer_def
        bindE_def Let_def getTag_setExifValue strictEq_def tags)
  have acc: "theCamera (Some ?s) = Inr exampleCamera" "theFilm (Some ?s) = Inr exampleFilm"
    by (simp_all add: theCamera_def theFilm_def exampleSelection_def)
  from minimal_tags [OF acc refl] obtain m where
    m: "minimalExifObj (Some ?s) = Inr m"
      "getTag m ''0th'' ImageIFD_Artist = Some (P (unknownIfFalsy (sel_photographer ?s)))"
    by blast
  have "unknownIfFalsy (sel_photographer ?s) = Str ''Unknown''"
    by (simp add: unknownIfFalsy_def)
  with m have minimal: "(case minimalExifObj (Some ?s) of
      Inl e \<Rightarrow> False
    | Inr m \<Rightarrow> getTag m ''0th'' ImageIFD_Artist = Some (P (Str ''Unknown'')))"
    by simp
  from full minimal show ?thesis by (rule conjI)
qed

text \<open>
  Claim C6, amended. Let the selection have camera, lens and film and let the file be
  readable. The JPEG \<^verbatim>\<open>applyExifToFile\<close> inserts the bytes \<^verbatim>\<open>piexif.dump\<close> gives for the first
  of three objects it accepts: the loaded object populated by \<^verbatim>\<open>setAllExifValues\<close>, the
  object of the basic tier, the object of the minimal tier; it returns \<^verbatim>\<open>false\<close> and writes
  nothing when all three or the insertion fail.

  In the populated object, when the shot ISO is falsy or equals the film ISO the ISOSpeed
  tag is not written: it holds what the loaded object held (nothing, for a file without
  EXIF). When the camera maker, the camera model, the photographer or the lens maker is
  \<^verbatim>\<open>null\<close>, \<^verbatim>\<open>undefined\<close> or a blank string, or the lens model text is blank, its tag is not
  written either and holds what the loaded object held; a blank string under one of these
  five tags was there before.

  The objects of the basic and the minimal tier are built afresh. Neither holds an
  ISOSpeed tag when the shot ISO is falsy or equals the film ISO, and neither holds a lens
  tag. A camera maker, camera model or photographer that is \<^verbatim>\<open>null\<close>, \<^verbatim>\<open>undefined\<close> or the
  empty string is absent from the basic tier's object and is the placeholder \<^verbatim>\<open>Unknown\<close>
  in the minimal tier's.
\<close>

theorem Jpeg_apply_suppression:
  assumes "selection = Some s"
    and "theCamera selection = Inr c" and "theLens selection = Inr l" and "theFilm selection = Inr f"
    and "fs filePath = Some jpegData"
    and "loaded = (case piexif_load E jpegData of None \<Rightarrow> createCleanExifObject | Some x \<Rightarrow> x)"
  shows "\<exists>e' b m.
           setAllExifValues E loaded selection = Inr e' \<and>
           basicExifObj selection = Inr b \<and> minimalExifObj selection = Inr m \<and>
           Jpeg_applyExifToFile E fs filePath selection =
             (case (case piexif_dump E e' of
                      Some x \<Rightarrow> Some x
                    | None \<Rightarrow> (case piexif_dump E b of Some x \<Rightarrow> Some x | None \<Rightarrow> piexif_dump E m)) of
                None \<Rightarrow> (False, fs)
              | Some exifBytes \<Rightarrow>
                  (case piexif_insert E exifBytes jpegData of
                     None \<Rightarrow> (False, fs)
                   | Some newJpegData \<Rightarrow> (True, fs(filePath \<mapsto> newJpegData)))) \<and>
           (\<not> truthyP (sel_shotISO s) \<or> sel_shotISO s = film_iso f \<longrightarrow>
              getTag e' ''Exif'' ExifIFD_ISOSpeed = getTag loaded ''Exif'' ExifIFD_ISOSpeed \<and>
              getTag b ''Exif'' ExifIFD_ISOSpeed = None \<and>
              getTag m ''Exif'' ExifIFD_ISOSpeed = None) \<and>
           (cam_maker c = Null \<or> cam_maker c = Undefined \<or> blankString (P (cam_maker c)) \<longrightarrow>
              getTag e' ''0th'' ImageIFD_Make = getTag loaded ''0th'' ImageIFD_Make) \<and>
           (cam_model c = Null \<or> cam_model c = Undefined \<or> blankString (P (cam_model c)) \<longrightarrow>
              getTag e' ''0th'' ImageIFD_Model = getTag loaded ''0th'' ImageIFD_Model) \<and>
           (sel_photographer s = Null \<or> sel_photographer s = Undefined \<or>
              blankString (P (sel_photographer s)) \<longrightarrow>
              getTag e' ''0th'' ImageIFD_Artist = getTag loaded ''0th'' ImageIFD_Artist) \<and>
           (lens_maker l = Null \<or> lens_maker l = Undefined \<or> blankString (P (lens_maker l)) \<longrightarrow>
              getTag e' ''Exif'' ExifIFD_LensMake = getTag loaded ''Exif'' ExifIFD_LensMake) \<and>
           (trim (getLensModelWithAperture l) = [] \<longrightarrow>
              getTag e' ''Exif'' ExifIFD_LensModel = getTag loaded ''Exif'' ExifIFD_LensModel) \<and>
           (\<forall>ifd tag str.
              (ifd, tag) \<in> {(''0th'', ImageIFD_Make), (''0th'', ImageIFD_Model),
                 (''0th'', ImageIFD_Artist), (''Exif'', ExifIFD_LensMake),
                 (''Exif'', ExifIFD_LensModel)} \<and>
              getTag e' ifd tag = Some (P (Str str)) \<and> trim str = [] \<longrightarrow>
              getTag loaded ifd tag = Some (P (Str str))) \<and>
           (\<not> truthyP (cam_maker c) \<longrightarrow>
              getTag b ''0th'' ImageIFD_Make = None \<and>
              getTag m ''0th'' ImageIFD_Make = Some (P (Str ''Unknown''))) \<and>
           (\<not> truthyP (cam_model c) \<longrightarrow>
              getTag b ''0th'' ImageIFD_Model = None \<and>
              getTag m ''0th'' ImageIFD_Model = Some (P (Str ''Unknown''))) \<and>
           (\<not> truthyP (sel_photographer s) \<longrightarrow>
              getTag b ''0th'' ImageIFD_Artist = None \<and>
              getTag m ''0th'' ImageIFD_Artist = Some (P (Str ''Unknown''))) \<and>
           getTag b ''Exif'' ExifIFD_LensMake = None \<and> getTag b ''Exif'' ExifIFD_LensModel = None \<and>
           getTag m ''Exif'' ExifIFD_LensMake = None \<and> getTag m ''Exif'' ExifIFD_LensModel = None"
proof -
  have v: "Jpeg_validateSelection selection = Inr ()"
    using assms(2-4) unfolding Jpeg_validate_iff by blast
  from setAll_ok [OF assms(2-4)] obtain e' where
    r: "setAllExifValues E loaded selection = Inr e'" by blast
  from basic_tags [OF assms(2,4,1)] obtain b where
    b: "basicExifObj selection = Inr b"
      "getTag b ''0th'' ImageIFD_Make =
             (if truthyP (cam_maker c) then Some (P (cam_maker c)) else None)"
      "getTag b ''0th'' ImageIFD_Model =
             (if truthyP (cam_model c) then Some (P (cam_model c)) else None)"
      "getTag b ''0th'' ImageIFD_Artist =
             (if truthyP (sel_photographer s) then Some (P (sel_photographer s)) else None)"
      "getTag b ''Exif'' ExifIFD_ISOSpeed =
             (if truthyP (sel_shotISO s) \<and> \<not> strictEq (sel_shotISO s) (film_iso f)
              then Some (P (sel_shotISO s)) else None)"
      "getTag b ''Exif'' ExifIFD_LensMake = None"
      "getTag b ''Exif'' ExifIFD_LensModel = None"
    by blast
  from minimal_tags [OF assms(2,4,1)] obtain m where
    m: "minimalExifObj selection = Inr m"
      "getTag m ''0th'' ImageIFD_Make = Some (P (unknownIfFalsy (cam_maker c)))"
      "getTag m ''0th'' ImageIFD_Model = Some (P (unknownIfFalsy (cam_model c)))"
      "getTag m ''0th'' ImageIFD_Artist = Some (P (unknownIfFalsy (sel_photographer s)))"
      "getTag m ''Exif'' ExifIFD_ISOSpeed =
             (if truthyP (sel_shotISO s) \<and> \<not> strictEq (sel_shotISO s) (film_iso f) \<and>
                 isNumber (sel_shotISO s)
              then Some (P (sel_shotISO s)) else None)"
      "getTag m ''Exif'' ExifIFD_LensMake = None"
      "getTag m ''Exif'' ExifIFD_LensModel = None"
    by blast
  note full = setAll_suppression [OF r assms(1-4)]
  have tiers: "Jpeg_applyExifToFile E fs filePath selection =
             (case (case piexif_dump E e' of
                      Some x \<Rightarrow> Some x
                    | None \<Rightarrow> (case piexif_dump E b of Some x \<Rightarrow> Some x | None \<Rightarrow> piexif_dump E m)) of
                None \<Rightarrow> (False, fs)
              | Some exifBytes \<Rightarrow>
                  (case piexif_insert E exifBytes jpegData of
                     None \<Rightarrow> (False, fs)
                   | Some newJpegData \<Rightarrow> (True, fs(filePath \<mapsto> newJpegData))))"
    using Jpeg_apply_tiers [where selection = selection and fs = fs and filePath = filePath
        and jpegData = jpegData and E = E and e' = e' and b = b and m = m]
      v assms(5) r assms(6) b(1) m(1)
    by simp
  have iso: "\<not> truthyP (sel_shotISO s) \<or> sel_shotISO s = film_iso f \<longrightarrow>
              getTag b ''Exif'' ExifIFD_ISOSpeed = None \<and>
              getTag m ''Exif'' ExifIFD_ISOSpeed = None"
    unfolding b(5) m(5) by (cases "sel_shotISO s") (auto simp: strictEq_def)
  have mk: "\<not> truthyP (cam_maker c) \<longrightarrow>
              getTag b ''0th'' ImageIFD_Make = None \<and>
              getTag m ''0th'' ImageIFD_Make = Some (P (Str ''Unknown''))"
    unfolding b(2) m(2) by (simp add: unknownIfFalsy_def)
  have md: "\<not> truthyP (cam_model c) \<longrightarrow>
              getTag b ''0th'' ImageIFD_Model = None \<and>
              getTag m ''0th'' ImageIFD_Model = Some (P (Str ''Unknown''))"
    unfolding b(3) m(3) by (simp add: unknownIfFalsy_def)
  have ar: "\<not> truthyP (sel_photographer s) \<longrightarrow>
              getTag b ''0th'' ImageIFD_Artist = None \<and>
              getTag m ''0th'' ImageIFD_Artist = Some (P (Str ''Unknown''))"
    unfolding b(4) m(4) by (simp add: unknownIfFalsy_def)
  show ?thesis
    apply (rule exI [of _ e'], rule exI [of _ b], rule exI [of _ m])
    apply (intro conjI)
    apply (rule r) apply (rule b(1)) apply (rule m(1)) apply (rule tiers)
    using full iso apply blast
    using full apply blast
    using full apply blast
    using full apply blast
    using full apply blast
    using full apply blast
    using full apply blast
    apply (rule mk) apply (rule md) apply (rule ar)
    apply (rule b(6)) apply (rule b(7)) apply (rule m(6)) apply (rule m(7))
    done
qed

theorem Jpeg_apply_suppression_witness:
  "fst (Jpeg_applyExifToFile exampleEnv [''a.jpg'' \<mapsto> exampleJpeg] ''a.jpg''
          (Some (exampleSelection\<lparr>sel_shotISO := Num 400, sel_photographer := Str ''  ''\<rparr>))) = True \<and>
   (case setAllExifValues exampleEnv createCleanExifObject
           (Some (exampleSelection\<lparr>sel_shotISO := Num 400, sel_photographer := Str ''  ''\<rparr>)) of
      Inl err \<Rightarrow> False
    | Inr e' \<Rightarrow> getTag e' ''Exif'' ExifIFD_ISOSpeed = None \<and> getTag e' ''0th'' ImageIFD_Artist = None) \<and>
   Jpeg_applyExifToFile (exampleEnv\<lparr>piexif_dump := (\<lambda>e. None)\<rparr>) [''a.jpg'' \<mapsto> exampleJpeg]
     ''a.jpg'' (Some (exampleSelection\<lparr>sel_shotISO := Num 400, sel_photographer := Str ''  ''\<rparr>)) =
     (False, [''a.jpg'' \<mapsto> exampleJpeg])"
proof -
  define s where "s = exampleSelection\<lparr>sel_shotISO := Num 400, sel_photographer := Str ''  ''\<rparr>"
  define fs where "fs = [''a.jpg'' \<mapsto> exampleJpeg]"
  define E2 where "E2 = exampleEnv\<lparr>piexif_dump := (\<lambda>e. None)\<rparr>"
  have acc: "theCamera (Some s) = Inr exampleCamera" "theLens (Some s) = Inr exampleLens"
    "theFilm (Some s) = Inr exampleFilm"
    by (simp_all add: s_def theCamera_def theLens_def theFilm_def exampleSelection_def)
  have f: "fs ''a.jpg'' = Some exampleJpeg" by (simp add: fs_def)
  have l1: "createCleanExifObject =
      (case piexif_load exampleEnv exampleJpeg of None \<Rightarrow> createCleanExifObject | Some x \<Rightarrow> x)"
    by (simp add: exampleEnv_def)
  have l2: "createCleanExifObject =
      (case piexif_load E2 exampleJpeg of None \<Rightarrow> createCleanExifObject | Some x \<Rightarrow> x)"
    by (simp add: E2_def exampleEnv_def)
  have h1: "sel_shotISO s = film_iso exampleFilm"
    by (simp add: s_def exampleFilm_def)
  have h2: "blankString (P (sel_photographer s))"
    by (simp add: s_def trim_blank)
  have d1: "\<And>x. piexif_dump exampleEnv x = Some ''Exif''"
    and i1: "\<And>b d. piexif_insert exampleEnv b d = Some (d @ b)"
    by (simp_all add: exampleEnv_def)
  have d2: "\<And>x. piexif_dump E2 x = None"
    by (simp add: E2_def)
  have c1: "getTag createCleanExifObject ''Exif'' ExifIFD_ISOSpeed = None"
    "getTag createCleanExifObject ''0th'' ImageIFD_Artist = None"
    by (simp_all add: getTag_clean)
  have "\<exists>e'. setAllExifValues exampleEnv createCleanExifObject (Some s) = Inr e' \<and>
      fst (Jpeg_applyExifToFile exampleEnv fs ''a.jpg'' (Some s)) = True \<and>
      getTag e' ''Exif'' ExifIFD_ISOSpeed = None \<and> getTag e' ''0th'' ImageIFD_Artist = None"
    using Jpeg_apply_suppression [where selection = "Some s" and s = s and c = exampleCamera
      and l = exampleLens and f = exampleFilm and fs = fs and filePath = "''a.jpg''"
      and jpegData = exampleJpeg and E = exampleEnv and loaded = createCleanExifObject,
      OF refl acc f l1] h1 h2
    unfolding d1 i1 c1 option.case by (elim exE conjE) (simp only: fst_conv, blast)
  then have 1: "fst (Jpeg_applyExifToFile exampleEnv fs ''a.jpg'' (Some s)) = True"
    "(case setAllExifValues exampleEnv createCleanExifObject (Some s) of
      Inl err \<Rightarrow> False
    | Inr e' \<Rightarrow> getTag e' ''Exif'' ExifIFD_ISOSpeed = None \<and> getTag e' ''0th'' ImageIFD_Artist = None)"
    by auto
  have 2: "Jpeg_applyExifToFile E2 fs ''a.jpg'' (Some s) = (False, fs)"
    using Jpeg_apply_suppression [where selection = "Some s" and s = s and c = exampleCamera
      and l = exampleLens and f = exampleFilm and fs = fs and filePath = "''a.jpg''"
      and jpegData = exampleJpeg and E = E2 and loaded = createCleanExifObject,
      OF refl acc f l2]
    unfolding d2 option.case by (elim exE conjE)
  from 1 2 show ?thesis unfolding s_def fs_def E2_def by blast
qed

section \<open>Falsy values and arrays in the tag store\<close>

text \<open>
  Claim C9, as stated, fails. \<^verbatim>\<open>setAllExifValues\<close> hands the film ISO to \<^verbatim>\<open>setExifValue\<close> as
  the one-element array \<^verbatim>\<open>[film.iso]\<close>, and an array is truthy: a film ISO of 0 is written
  to the Exif bucket as \<^verbatim>\<open>[0]\<close>. Focal length and f-number are handed over as pairs: a focal
  length that \<^verbatim>\<open>parseInt\<close> reads as 0 is written as \<^verbatim>\<open>[0, 1]\<close>.
\<close>

theorem zero_film_ISO_written:
  "(case setAllExifValues exampleEnv createCleanExifObject
           (Some (exampleSelection\<lparr>sel_film := Some (exampleFilm\<lparr>film_iso := Num 0\<rparr>)\<rparr>)) of
      Inl err \<Rightarrow> False
    | Inr e' \<Rightarrow> getTag e' ''Exif'' ExifIFD_ISOSpeedRatings = Some (Arr [Num 0])) \<and>
   (case setAllExifValues (exampleEnv\<lparr>js_parseInt := (\<lambda>p. Num 0)\<rparr>) createCleanExifObject
           (Some (exampleSelection\<lparr>sel_setup := Some \<lparr>setup_camera = Some exampleCamera,
              setup_lens = Some (exampleLens\<lparr>lens_focalLength := Str ''0''\<rparr>)\<rparr>\<rparr>)) of
      Inl err \<Rightarrow> False
    | Inr e' \<Rightarrow> getTag e' ''Exif'' ExifIFD_FocalLength = Some (Arr [Num 0, Num 1]))"
proof -
  let ?s1 = "exampleSelection\<lparr>sel_film := Some (exampleFilm\<lparr>film_iso := Num 0\<rparr>)\<rparr>"
  let ?l2 = "exampleLens\<lparr>lens_focalLength := Str ''0''\<rparr>"
  let ?s2 = "exampleSelection\<lparr>sel_setup := Some \<lparr>setup_camera = Some exampleCamera,
              setup_lens = Some ?l2\<rparr>\<rparr>"
  let ?E2 = "exampleEnv\<lparr>js_parseInt := (\<lambda>p. Num 0)\<rparr>"
  have acc1: "theCamera (Some ?s1) = Inr exampleCamera" "theLens (Some ?s1) = Inr exampleLens"
    "theFilm (Some ?s1) = Inr (exampleFilm\<lparr>film_iso := Num 0\<rparr>)"
    by (simp_all add: theCamera_def theLens_def theFilm_def exampleSelection_def)
  have acc2: "theCamera (Some ?s2) = Inr exampleCamera" "theLens (Some ?s2) = Inr ?l2"
    "theFilm (Some ?s2) = Inr exampleFilm"
    by (simp_all add: theCamera_def theLens_def theFilm_def exampleSelection_def)
  from setAll_ok [OF acc1] obtain e1 where
    r1: "setAllExifValues exampleEnv createCleanExifObject (Some ?s1) = Inr e1" by blast
  from setAll_getTag [OF r1] acc1
  have t1: "getTag e1 ''Exif'' ExifIFD_ISOSpeedRatings = Some (Arr [Num 0])"
    by auto
  from setAll_ok [OF acc2] obtain e2 where
    r2: "setAllExifValues ?E2 createCleanExifObject (Some ?s2) = Inr e2" by blast
  from setAll_getTag_lens [OF r2] acc2
  have t2: "getTag e2 ''Exif'' ExifIFD_FocalLength = Some (Arr [Num 0, Num 1])"
    by auto
  from r1 t1 r2 t2 show ?thesis by simp
qed

text \<open>
  Claim C9, amended. \<^verbatim>\<open>setExifValue\<close> returns the EXIF object it was given, unchanged, for
  every falsy value and every key: for \<^verbatim>\<open>null\<close>, \<^verbatim>\<open>undefined\<close>, the empty string and blank
  strings, and also for the number 0, for \<^verbatim>\<open>NaN\<close> and for \<^verbatim>\<open>false\<close>. An array is never falsy:
  it is written under the tag of its key, whatever it holds. \<^verbatim>\<open>setAllExifValues\<close> passes
  the film ISO, the focal length and the f-number as arrays, so the film ISO is always
  written, also when it is 0, and focal length and f-number are written whenever the
  lens's focal length or aperture member is truthy, whatever number it parses to.
\<close>

theorem setExifValue_falsy_and_arrays:
  "(\<not> truthy v \<or> blankString v \<longrightarrow> setExifValue exifObj key v = exifObj) \<and>
   setExifValue exifObj key (P (Num 0)) = exifObj \<and>
   setExifValue exifObj key (P (Bool False)) = exifObj \<and>
   setExifValue exifObj key (P NaN) = exifObj \<and>
   setExifValue exifObj key (P Null) = exifObj \<and>
   setExifValue exifObj key (P Undefined) = exifObj \<and>
   setExifValue exifObj key (P (Str [])) = exifObj \<and>
   (EXIF_TAGS key = (ifd, tag) \<longrightarrow>
      getTag (setExifValue exifObj key (Arr xs)) ifd tag = Some (Arr xs)) \<and>
   (setAllExifValues E exifObj selection = Inr e' \<and> theFilm selection = Inr f \<and>
    theLens selection = Inr l \<longrightarrow>
      getTag e' ''Exif'' ExifIFD_ISOSpeedRatings = Some (Arr [film_iso f]) \<and>
      getTag e' ''Exif'' ExifIFD_FocalLength =
        (if truthyP (lens_focalLength l)
         then Some (Arr [js_parseInt E (lens_focalLength l), Num 1])
         else getTag exifObj ''Exif'' ExifIFD_FocalLength) \<and>
      getTag e' ''Exif'' ExifIFD_FNumber =
        (if truthyP (lens_aperture l)
         then Some (Arr [js_roundTimes10 E (js_parseFloat E (lens_aperture l)), Num 10])
         else getTag exifObj ''Exif'' ExifIFD_FNumber))"
proof -
  have a: "\<not> truthy v \<or> blankString v \<longrightarrow> setExifValue exifObj key v = exifObj" for v
    by (simp add: setExifValue_def)
  have b: "EXIF_TAGS key = (ifd, tag) \<longrightarrow>
      getTag (setExifValue exifObj key (Arr xs)) ifd tag = Some (Arr xs)"
    by (simp add: getTag_setExifValue)
  have c: "getTag e' ''Exif'' ExifIFD_ISOSpeedRatings = Some (Arr [film_iso f]) \<and>
      getTag e' ''Exif'' ExifIFD_FocalLength =
        (if truthyP (lens_focalLength l)
         then Some (Arr [js_parseInt E (lens_focalLength l), Num 1])
         else getTag exifObj ''Exif'' ExifIFD_FocalLength) \<and>
      getTag e' ''Exif'' ExifIFD_FNumber =
        (if truthyP (lens_aperture l)
         then Some (Arr [js_roundTimes10 E (js_parseFloat E (lens_aperture l)), Num 10])
         else getTag exifObj ''Exif'' ExifIFD_FNumber)"
    if r: "setAllExifValues E exifObj selection = Inr e'" and "theFilm selection = Inr f"
      "theLens selection = Inr l"
    using setAll_getTag [OF r] setAll_getTag_lens [OF r] that(2,3) by auto
  have d: "setExifValue exifObj key (P (Num 0)) = exifObj \<and>
   setExifValue exifObj key (P (Bool False)) = exifObj \<and>
   setExifValue exifObj key (P NaN) = exifObj \<and>
   setExifValue exifObj key (P Null) = exifObj \<and>
   setExifValue exifObj key (P Undefined) = exifObj \<and>
   setExifValue exifObj key (P (Str [])) = exifObj"
    by (simp add: setExifValue_def)
  from a [of v] b c d show ?thesis by blast
qed

theorem setExifValue_falsy_and_arrays_witness:
  "\<not> truthy (P (Num 0)) \<and>
   setExifValue createCleanExifObject shotISO (P (Num 0)) = createCleanExifObject \<and>
   EXIF_TAGS filmISO = (''Exif'', ExifIFD_ISOSpeedRatings) \<and>
   getTag (setExifValue createCleanExifObject filmISO (Arr [Num 0])) ''Exif'' ExifIFD_ISOSpeedRatings =
     Some (Arr [Num 0]) \<and>
   (case setAllExifValues exampleEnv createCleanExifObject
           (Some (exampleSelection\<lparr>sel_film := Some (exampleFilm\<lparr>film_iso := Num 0\<rparr>)\<rparr>)) of
      Inl err \<Rightarrow> False
    | Inr e' \<Rightarrow> getTag e' ''Exif'' ExifIFD_ISOSpeedRatings = Some (Arr [Num 0]))"
proof -
  let ?s1 = "exampleSelection\<lparr>sel_film := Some (exampleFilm\<lparr>film_iso := Num 0\<rparr>)\<rparr>"
  have acc1: "theCamera (Some ?s1) = Inr exampleCamera" "theLens (Some ?s1) = Inr exampleLens"
    "theFilm (Some ?s1) = Inr (exampleFilm\<lparr>film_iso := Num 0\<rparr>)"
    by (simp_all add: theCamera_def theLens_def theFilm_def exampleSelection_def)
  from setAll_ok [OF acc1] obtain e1 where
    r1: "setAllExifValues exampleEnv createCleanExifObject (Some ?s1) = Inr e1" by blast
  have a: "\<not> truthy (P (Num 0)) \<and>
     setExifValue createCleanExifObject shotISO (P (Num 0)) = createCleanExifObject"
    using setExifValue_falsy_and_arrays [of "P (Num 0)" createCleanExifObject shotISO] by simp
  have t: "EXIF_TAGS filmISO = (''Exif'', ExifIFD_ISOSpeedRatings)" by simp
  have b: "getTag (setExifValue createCleanExifObject filmISO (Arr [Num 0])) ''Exif''
      ExifIFD_ISOSpeedRatings = Some (Arr [Num 0])"
    using setExifValue_falsy_and_arrays [of "P (Num 0)" createCleanExifObject filmISO "''Exif''"
      ExifIFD_ISOSpeedRatings "[Num 0]"] t by simp
  have "getTag e1 ''Exif'' ExifIFD_ISOSpeedRatings = Some (Arr [Num 0])"
    using setExifValue_falsy_and_arrays [where E = exampleEnv and exifObj = createCleanExifObject
        and selection = "Some ?s1" and e' = e1 and f = "exampleFilm\<lparr>film_iso := Num 0\<rparr>"
        and l = exampleLens] r1 acc1
    by simp
  then have c: "(case setAllExifValues exampleEnv createCleanExifObject (Some ?s1) of
      Inl err \<Rightarrow> False
    | Inr e' \<Rightarrow> getTag e' ''Exif'' ExifIFD_ISOSpeedRatings = Some (Arr [Num 0]))"
    using r1 by simp
  from a t b c show ?thesis by blast
qed

section \<open>The sidecar document\<close>






section \<open>The fields of the fallback tiers\<close>

lemma fieldSet_buckets:
  "fieldSet (createCleanExifObject(''0th'' \<mapsto> z, ''Exif'' \<mapsto> x)) =
     Pair ''0th'' ` dom z \<union> Pair ''Exif'' ` dom x"
  "fieldSet [''0th'' \<mapsto> z, ''Exif'' \<mapsto> x, ''GPS'' \<mapsto> Map.empty, ''Interop'' \<mapsto> Map.empty,
      ''1st'' \<mapsto> Map.empty] = Pair ''0th'' ` dom z \<union> Pair ''Exif'' ` dom x"
  unfolding minimal_reorder
  by (auto simp: fieldSet_def getTag_buckets getTag_clean getTag_other split: if_splits)

lemma minimal_fields:
  assumes "theCamera selection = Inr c" "theFilm selection = Inr f" "selection = Some s"
  shows "minimalFields selection =
           {(''0th'', ImageIFD_Make), (''0th'', ImageIFD_Model), (''0th'', ImageIFD_Artist),
            (''Exif'', ExifIFD_ISOSpeedRatings)} \<union>
           (if truthyP (sel_shotISO s) \<and> \<not> strictEq (sel_shotISO s) (film_iso f) \<and> isNumber (sel_shotISO s)
            then {(''Exif'', ExifIFD_ISOSpeed)} else {})"
proof -
  have acc: "theShotISO selection = Inr (sel_shotISO s)"
    "thePhotographer selection = Inr (sel_photographer s)"
    using assms(3) by (simp_all add: theShotISO_def thePhotographer_def)
  show ?thesis
    by (simp add: minimalFields_def minimalExifObj_def assms(1,2) acc bindE_def Let_def
        fieldSet_buckets insert_commute)
qed

lemma basic_fields:
  assumes "theCamera selection = Inr c" "theFilm selection = Inr f" "selection = Some s"
  shows "basicFields selection =
           (if truthyP (cam_maker c) then {(''0th'', ImageIFD_Make)} else {}) \<union>
           (if truthyP (cam_model c) then {(''0th'', ImageIFD_Model)} else {}) \<union>
           (if truthyP (sel_photographer s) then {(''0th'', ImageIFD_Artist)} else {}) \<union>
           (if truthyP (film_iso f) then {(''Exif'', ExifIFD_ISOSpeedRatings)} else {}) \<union>
           (if truthyP (sel_shotISO s) \<and> \<not> strictEq (sel_shotISO s) (film_iso f)
            then {(''Exif'', ExifIFD_ISOSpeed)} else {})"
proof -
  have acc: "theShotISO selection = Inr (sel_shotISO s)"
    "thePhotographer selection = Inr (sel_photographer s)"
    using assms(3) by (simp_all add: theShotISO_def thePhotographer_def)
  have d: "dom (if b then m(k \<mapsto> v) else m) = (if b then {k} else {}) \<union> dom m"
    for b and m :: bucket and k v
    by simp
  show ?thesis
    by (simp add: basicFields_def basicExifObj_def assms(1,2) acc bindE_def Let_def
        fieldSet_buckets d image_Un Un_assoc Un_commute Un_left_commute)
qed


lemma trims: "trim ''Canon'' = ''Canon''" "trim ''AE-1'' = ''AE-1''" "trim ''Jane Doe'' = ''Jane Doe''"
  by code_simp+

text \<open>
  Claim C4, as stated, fails. For the example selection the minimal tier's field set
  equals the basic tier's, so it is no strict subset. With an \<^verbatim>\<open>undefined\<close> photographer
  the minimal tier writes the Artist placeholder and the basic tier writes no Artist.
  With a camera maker of two spaces the basic tier writes Make and the full tier, which
  suppresses blank strings, does not.
\<close>

theorem tiers_not_strict_subsets:
  "\<not> minimalFields (Some exampleSelection) \<subset> basicFields (Some exampleSelection) \<and>
   (''0th'', ImageIFD_Artist) \<in> minimalFields (Some (exampleSelection\<lparr>sel_photographer := Undefined\<rparr>)) \<and>
   (''0th'', ImageIFD_Artist) \<notin> basicFields (Some (exampleSelection\<lparr>sel_photographer := Undefined\<rparr>)) \<and>
   (''0th'', ImageIFD_Make) \<in> basicFields (Some (exampleSelection\<lparr>sel_setup :=
       Some \<lparr>setup_camera = Some (exampleCamera\<lparr>cam_maker := Str ''  ''\<rparr>),
             setup_lens = Some exampleLens\<rparr>\<rparr>)) \<and>
   (''0th'', ImageIFD_Make) \<notin> fullFields exampleEnv (Some (exampleSelection\<lparr>sel_setup :=
       Some \<lparr>setup_camera = Some (exampleCamera\<lparr>cam_maker := Str ''  ''\<rparr>),
             setup_lens = Some exampleLens\<rparr>\<rparr>))"
proof -
  note tags = ImageIFD_Make_def ImageIFD_Model_def ImageIFD_Artist_def ExifIFD_ISOSpeedRatings_def
    ExifIFD_ISOSpeed_def
  let ?u = "exampleSelection\<lparr>sel_photographer := Undefined\<rparr>"
  let ?c = "exampleCamera\<lparr>cam_maker := Str ''  ''\<rparr>"
  let ?b = "exampleSelection\<lparr>sel_setup := Some \<lparr>setup_camera = Some ?c, setup_lens = Some exampleLens\<rparr>\<rparr>"
  have acc: "theCamera (Some exampleSelection) = Inr exampleCamera"
    "theFilm (Some exampleSelection) = Inr exampleFilm"
    "theCamera (Some ?u) = Inr exampleCamera" "theFilm (Some ?u) = Inr exampleFilm"
    "theCamera (Some ?b) = Inr ?c" "theFilm (Some ?b) = Inr exampleFilm"
    "theLens (Some ?b) = Inr exampleLens"
    by (simp_all add: theCamera_def theFilm_def theLens_def exampleSelection_def)
  have 1: "minimalFields (Some exampleSelection) = basicFields (Some exampleSelection)"
    unfolding minimal_fields [OF acc(1,2) refl] basic_fields [OF acc(1,2) refl]
    by (auto simp: exampleSelection_def exampleCamera_def exampleFilm_def strictEq_def)
  have 2: "(''0th'', ImageIFD_Artist) \<in> minimalFields (Some ?u)"
    unfolding minimal_fields [OF acc(3,4) refl] by simp
  have 3: "(''0th'', ImageIFD_Artist) \<notin> basicFields (Some ?u)"
    unfolding basic_fields [OF acc(3,4) refl] by (simp add: tags)
  have 4: "(''0th'', ImageIFD_Make) \<in> basicFields (Some ?b)"
    unfolding basic_fields [OF acc(5,6) refl] by simp
  from setAll_ok [OF acc(5,7,6)] obtain e' where
    r: "setAllExifValues exampleEnv createCleanExifObject (Some ?b) = Inr e'" by blast
  from setAll_getTag [OF r] acc(5) have "getTag e' ''0th'' ImageIFD_Make = None"
    by (auto simp: getTag_clean trim_blank)
  with r have 5: "(''0th'', ImageIFD_Make) \<notin> fullFields exampleEnv (Some ?b)"
    by (simp add: fullFields_def fieldSet_def)
  from 1 2 3 4 5 show ?thesis by blast
qed

text \<open>
  Claim C4, amended. For a selection with camera, lens and film: the basic tier writes
  only tags among Make, Model, Artist, ISOSpeedRatings and ISOSpeed (no lens, focal length
  or f-number tag); the minimal tier always writes Make, Model, Artist and
  ISOSpeedRatings, and nothing else but ISOSpeed, which it writes only when the basic tier
  writes it; and when none of camera maker, camera model, photographer and shot ISO is a
  non-empty blank string, every field of the basic tier is in the full tier's intended
  field set.
\<close>

theorem fallback_tier_fields:
  assumes "selection = Some s"
    and "theCamera selection = Inr c" and "theLens selection = Inr l" and "theFilm selection = Inr f"
  shows "basicFields selection \<subseteq>
           {(''0th'', ImageIFD_Make), (''0th'', ImageIFD_Model), (''0th'', ImageIFD_Artist),
            (''Exif'', ExifIFD_ISOSpeedRatings), (''Exif'', ExifIFD_ISOSpeed)} \<and>
         {(''0th'', ImageIFD_Make), (''0th'', ImageIFD_Model), (''0th'', ImageIFD_Artist),
            (''Exif'', ExifIFD_ISOSpeedRatings)} \<subseteq> minimalFields selection \<and>
         minimalFields selection \<subseteq>
           {(''0th'', ImageIFD_Make), (''0th'', ImageIFD_Model), (''0th'', ImageIFD_Artist),
            (''Exif'', ExifIFD_ISOSpeedRatings), (''Exif'', ExifIFD_ISOSpeed)} \<and>
         ((''Exif'', ExifIFD_ISOSpeed) \<in> minimalFields selection \<longrightarrow>
            (''Exif'', ExifIFD_ISOSpeed) \<in> basicFields selection) \<and>
         (\<not> (truthyP (cam_maker c) \<and> blankString (P (cam_maker c))) \<and>
          \<not> (truthyP (cam_model c) \<and> blankString (P (cam_model c))) \<and>
          \<not> (truthyP (sel_photographer s) \<and> blankString (P (sel_photographer s))) \<and>
          \<not> (truthyP (sel_shotISO s) \<and> blankString (P (sel_shotISO s))) \<longrightarrow>
            basicFields selection \<subseteq> fullFields E selection)"
proof -
  note b = basic_fields [OF assms(2,4,1)]
  note m = minimal_fields [OF assms(2,4,1)]
  have 1: "basicFields selection \<subseteq>
           {(''0th'', ImageIFD_Make), (''0th'', ImageIFD_Model), (''0th'', ImageIFD_Artist),
            (''Exif'', ExifIFD_ISOSpeedRatings), (''Exif'', ExifIFD_ISOSpeed)}"
    unfolding b by auto
  have 2: "{(''0th'', ImageIFD_Make), (''0th'', ImageIFD_Model), (''0th'', ImageIFD_Artist),
            (''Exif'', ExifIFD_ISOSpeedRatings)} \<subseteq> minimalFields selection"
    unfolding m by auto
  have 3: "minimalFields selection \<subseteq>
           {(''0th'', ImageIFD_Make), (''0th'', ImageIFD_Model), (''0th'', ImageIFD_Artist),
            (''Exif'', ExifIFD_ISOSpeedRatings), (''Exif'', ExifIFD_ISOSpeed)}"
    unfolding m by auto
  have 4: "(''Exif'', ExifIFD_ISOSpeed) \<in> minimalFields selection \<longrightarrow>
            (''Exif'', ExifIFD_ISOSpeed) \<in> basicFields selection"
    unfolding m b by (auto simp: ExifIFD_ISOSpeed_def ExifIFD_ISOSpeedRatings_def split: if_splits)
  have 5: "basicFields selection \<subseteq> fullFields E selection"
    if nb: "\<not> (truthyP (cam_maker c) \<and> blankString (P (cam_maker c)))"
      "\<not> (truthyP (cam_model c) \<and> blankString (P (cam_model c)))"
      "\<not> (truthyP (sel_photographer s) \<and> blankString (P (sel_photographer s)))"
      "\<not> (truthyP (sel_shotISO s) \<and> blankString (P (sel_shotISO s)))"
  proof -
    from setAll_ok [OF assms(2-4)] obtain e' where
      r: "setAllExifValues E createCleanExifObject selection = Inr e'" by blast
    from setAll_getTag [OF r] assms have
      g: "getTag e' ''0th'' ImageIFD_Make =
             (if truthyP (cam_maker c) \<and> \<not> blankString (P (cam_maker c)) then Some (P (cam_maker c))
              else None)"
       "getTag e' ''0th'' ImageIFD_Model =
             (if truthyP (cam_model c) \<and> \<not> blankString (P (cam_model c)) then Some (P (cam_model c))
              else None)"
       "getTag e' ''0th'' ImageIFD_Artist =
             (if truthyP (sel_photographer s) \<and> \<not> blankString (P (sel_photographer s))
              then Some (P (sel_photographer s)) else None)"
       "getTag e' ''Exif'' ExifIFD_ISOSpeedRatings = Some (Arr [film_iso f])"
       "getTag e' ''Exif'' ExifIFD_ISOSpeed =
             (if truthyP (sel_shotISO s) \<and> \<not> strictEq (sel_shotISO s) (film_iso f) \<and>
                 \<not> blankString (P (sel_shotISO s))
              then Some (P (sel_shotISO s)) else None)"
      by (auto simp: getTag_clean)
    have f: "fullFields E selection = fieldSet e'"
      using r by (simp add: fullFields_def)
    show ?thesis
      unfolding b f using nb g by (auto simp: fieldSet_def split: if_splits)
  qed
  from 1 2 3 4 5 show ?thesis by blast
qed

theorem fallback_tier_fields_witness:
  "\<not> (truthyP (cam_maker exampleCamera) \<and> blankString (P (cam_maker exampleCamera))) \<and>
   \<not> (truthyP (cam_model exampleCamera) \<and> blankString (P (cam_model exampleCamera))) \<and>
   \<not> (truthyP (sel_photographer exampleSelection) \<and> blankString (P (sel_photographer exampleSelection))) \<and>
   \<not> (truthyP (sel_shotISO exampleSelection) \<and> blankString (P (sel_shotISO exampleSelection))) \<and>
   basicFields (Some exampleSelection) \<subseteq> fullFields exampleEnv (Some exampleSelection) \<and>
   (''Exif'', ExifIFD_ISOSpeed) \<in> minimalFields (Some exampleSelection) \<and>
   (''Exif'', ExifIFD_ISOSpeed) \<in> basicFields (Some exampleSelection)"
proof -
  have acc: "theCamera (Some exampleSelection) = Inr exampleCamera"
    "theLens (Some exampleSelection) = Inr exampleLens"
    "theFilm (Some exampleSelection) = Inr exampleFilm"
    by (simp_all add: theCamera_def theFilm_def theLens_def exampleSelection_def)
  have nb: "\<not> (truthyP (cam_maker exampleCamera) \<and> blankString (P (cam_maker exampleCamera)))"
   "\<not> (truthyP (cam_model exampleCamera) \<and> blankString (P (cam_model exampleCamera)))"
   "\<not> (truthyP (sel_photographer exampleSelection) \<and> blankString (P (sel_photographer exampleSelection)))"
   "\<not> (truthyP (sel_shotISO exampleSelection) \<and> blankString (P (sel_shotISO exampleSelection)))"
    by (simp_all add: exampleCamera_def exampleSelection_def trims)
  have m: "(''Exif'', ExifIFD_ISOSpeed) \<in> minimalFields (Some exampleSelection)"
    unfolding minimal_fields [OF acc(1,3) refl]
    by (simp add: exampleSelection_def exampleFilm_def strictEq_def)
  from fallback_tier_fields [OF refl acc, of exampleEnv] nb m show ?thesis by blast
qed

end
